theory Spec2Isabelle
  imports Main
begin

unbundle bit_operations_syntax

section \<open>Python text and values\<close>

text \<open>
  A Python \<open>str\<close> is a sequence of Unicode code points (0 .. 0x10FFFF), so it is modelled
  as a list of natural numbers; \<open>lit\<close> turns an ASCII literal into such a text.
  \<open>bytes\<close> are lists of octets.
\<close>

type_synonym codepoint = nat
type_synonym pystr = "codepoint list"
type_synonym bytes = "nat list"

definition lit :: "string \<Rightarrow> pystr" where
  "lit s = map of_char s"

text \<open>\<open>s.startswith(p)\<close>\<close>

definition startswith :: "pystr \<Rightarrow> pystr \<Rightarrow> bool" where
  "startswith s p = (take (length p) s = p)"

text \<open>\<open>s.split(sep)\<close> for a separator of one character, which is what both call sites
  pass (\<open>os.pathsep\<close> and \<open>"\n"\<close>): the result always has at least one piece.\<close>

fun split :: "codepoint \<Rightarrow> pystr \<Rightarrow> pystr list" where
  "split sep [] = [[]]"
| "split sep (c # cs) =
     (if c = sep then [] # split sep cs
      else (case split sep cs of [] \<Rightarrow> [[c]] | p # ps \<Rightarrow> (c # p) # ps))"

text \<open>\<open>s.replace(old, new)\<close>: occurrences of \<open>old\<close> are replaced from the left and the
  replacement is not scanned again; an empty \<open>old\<close> matches between all characters.\<close>

function replace :: "pystr \<Rightarrow> pystr \<Rightarrow> pystr \<Rightarrow> pystr" where
  "replace old new s =
     (if old = [] then new @ concat (map (\<lambda>c. c # new) s)
      else if s = [] then []
      else if startswith s old then new @ replace old new (drop (length old) s)
      else hd s # replace old new (tl s))"
  by pat_completeness auto
termination
  by (relation "measure (\<lambda>(old, new, s). length s)") auto

declare replace.simps [simp del]

text \<open>\<open>str.isspace\<close> of one character (the code points CPython lists as whitespace) and
  \<open>s.strip()\<close>.\<close>

definition isspace :: "codepoint \<Rightarrow> bool" where
  "isspace c =
     ((0x09 \<le> c \<and> c \<le> 0x0D) \<or> (0x1C \<le> c \<and> c \<le> 0x20) \<or> c = 0x85 \<or> c = 0xA0 \<or>
      c = 0x1680 \<or> (0x2000 \<le> c \<and> c \<le> 0x200A) \<or> c = 0x2028 \<or> c = 0x2029 \<or>
      c = 0x202F \<or> c = 0x205F \<or> c = 0x3000)"

definition strip :: "pystr \<Rightarrow> pystr" where
  "strip s = rev (dropWhile isspace (rev (dropWhile isspace s)))"

text \<open>Python values, as far as they occur here: what \<open>json.loads\<close> returns, the byte string
  a subprocess prints, and the arguments of exceptions. A float is opaque: nothing inspects one.\<close>

typedecl pyfloat

datatype pyval =
    PNone
  | PBool bool
  | PInt int
  | PFloat pyfloat
  | PStr pystr
  | PBytes bytes
  | PList "pyval list"
  | PDict "(pystr \<times> pyval) list"

text \<open>The module's exception classes (\<open>RuntimeUnavailable\<close> is a subclass of the module's
  \<open>RuntimeError\<close>, which shadows the builtin), and the builtin exceptions that the modelled
  code can raise without catching. \<open>JSONDecodeError\<close> and \<open>UnicodeError\<close> are
  \<open>ValueError\<close>s in Python; they are kept apart here.\<close>

datatype py_error =
    RuntimeError pyval
  | ProgramError pyval
  | RuntimeUnavailable "pystr option"
  | IndexError
  | KeyError
  | AttributeError
  | TypeError
  | ValueError
  | JSONDecodeError
  | UnicodeError
  | LookupError
  | OSError

text \<open>\<open>xs[i]\<close> on a list, with Python's negative indices.\<close>

definition getitem :: "'a list \<Rightarrow> int \<Rightarrow> py_error + 'a" where
  "getitem xs i =
     (if 0 \<le> i \<and> i < int (length xs) then Inr (xs ! nat i)
      else if i < 0 \<and> - int (length xs) \<le> i then Inr (xs ! nat (int (length xs) + i))
      else Inl IndexError)"

section \<open>Escaping of non-ASCII code points\<close>

text \<open>\<open>format(n, 'x')\<close> and \<open>format(n, '04x')\<close>: lowercase hexadecimal, the second
  padded with zeros to a width of at least four.\<close>

definition hex_digit :: "nat \<Rightarrow> codepoint" where
  "hex_digit d = (if d < 10 then 48 + d else 87 + d)"

function format_x :: "nat \<Rightarrow> pystr" where
  "format_x n = (if n < 16 then [hex_digit n] else format_x (n div 16) @ [hex_digit (n mod 16)])"
  by pat_completeness auto
termination
  by (relation "measure id") auto

declare format_x.simps [simp del]

definition format_04x :: "nat \<Rightarrow> pystr" where
  "format_04x n = (let ds = format_x n in replicate (4 - length ds) 48 @ ds)"

text \<open>\<open>codepoint_format = '\\u{0:04x}'.format\<close>\<close>

definition codepoint_format :: "nat \<Rightarrow> pystr" where
  "codepoint_format n = [92, 117] @ format_04x n"

text \<open>\<open>re.sub('[^\x00-\x7f]', codepoint, str)\<close>: every character outside 0 .. 0x7f is
  replaced by \<open>codepoint_format\<close> of its ordinal, every other character is kept.\<close>

definition encode_unicode_codepoints :: "pystr \<Rightarrow> pystr" where
  "encode_unicode_codepoints str =
     concat (map (\<lambda>c. if c \<le> 0x7f then [c] else codepoint_format c) str)"





section \<open>Result extraction\<close>

text \<open>The operations of Python that \<open>_extract_result\<close> applies to the decoded line:
  \<open>len(ret)\<close>, \<open>ret[0]\<close>, the unpacking \<open>status, value = ret\<close> and
  \<open>value.startswith(...)\<close>. Each raises what Python raises on a value of the wrong type.\<close>

fun py_len :: "pyval \<Rightarrow> py_error + nat" where
  "py_len (PStr s) = Inr (length s)"
| "py_len (PBytes b) = Inr (length b)"
| "py_len (PList xs) = Inr (length xs)"
| "py_len (PDict kvs) = Inr (length kvs)"
| "py_len _ = Inl TypeError"

fun py_iter :: "pyval \<Rightarrow> py_error + pyval list" where
  "py_iter (PStr s) = Inr (map (\<lambda>c. PStr [c]) s)"
| "py_iter (PBytes b) = Inr (map (\<lambda>n. PInt (int n)) b)"
| "py_iter (PList xs) = Inr xs"
| "py_iter (PDict kvs) = Inr (map (\<lambda>kv. PStr (fst kv)) kvs)"
| "py_iter _ = Inl TypeError"

text \<open>\<open>ret[0]\<close>: a dictionary decoded from JSON has text keys only, so the key \<open>0\<close> is
  missing from it.\<close>

fun py_first :: "pyval \<Rightarrow> py_error + pyval" where
  "py_first (PDict kvs) = Inl KeyError"
| "py_first v = (case py_iter v of Inl e \<Rightarrow> Inl e | Inr xs \<Rightarrow> getitem xs 0)"

definition unpack2 :: "pyval \<Rightarrow> py_error + (pyval \<times> pyval)" where
  "unpack2 v =
     (case py_iter v of
        Inl e \<Rightarrow> Inl e
      | Inr xs \<Rightarrow> (case xs of [a, b] \<Rightarrow> Inr (a, b) | _ \<Rightarrow> Inl ValueError))"

fun py_startswith :: "pyval \<Rightarrow> pystr \<Rightarrow> py_error + bool" where
  "py_startswith (PStr s) p = Inr (startswith s p)"
| "py_startswith (PBytes b) p = Inl TypeError"
| "py_startswith _ p = Inl AttributeError"

text \<open>
  \<open>ExternalRuntime.Context._extract_result\<close>. The decoder \<open>json.loads\<close> belongs to
  Python's library, not to this module, and is a parameter: it returns the decoded value
  or the exception it raises.
\<close>

definition extract_result :: "(pystr \<Rightarrow> py_error + pyval) \<Rightarrow> pystr \<Rightarrow> py_error + pyval" where
  "extract_result loads output_last_line =
     (case (if output_last_line = [] then Inr (PNone, PNone)
            else (case loads output_last_line of
                    Inl e \<Rightarrow> Inl e
                  | Inr ret \<Rightarrow>
                      (case py_len ret of
                         Inl e \<Rightarrow> Inl e
                       | Inr n \<Rightarrow>
                           if n = 1
                           then (case py_first ret of
                                   Inl e \<Rightarrow> Inl e
                                 | Inr r0 \<Rightarrow> unpack2 (PList [r0, PNone]))
                           else unpack2 ret))) of
        Inl e \<Rightarrow> Inl e
      | Inr (status, val) \<Rightarrow>
          if status = PStr (lit ''ok'') then Inr val
          else (case py_startswith val (lit ''SyntaxError:'') of
                  Inl e \<Rightarrow> Inl e
                | Inr b \<Rightarrow> if b then Inl (RuntimeError val) else Inl (ProgramError val)))"

text \<open>What \<open>json.loads\<close> returns on the envelope lines used as examples in this theory,
  for instantiating the decoder; any other line is reported as undecodable.\<close>

definition loads_envelopes :: "pystr \<Rightarrow> py_error + pyval" where
  "loads_envelopes line =
     (if line = lit ''[\"ok\", 3]'' then Inr (PList [PStr (lit ''ok''), PInt 3])
      else if line = lit ''[\"ok\"]'' then Inr (PList [PStr (lit ''ok'')])
      else if line = lit ''[\"err\"]'' then Inr (PList [PStr (lit ''err'')])
      else if line = lit ''[\"err\",\"SyntaxError: x\"]''
        then Inr (PList [PStr (lit ''err''), PStr (lit ''SyntaxError: x'')])
      else if line = lit ''[\"err\",\"ReferenceError: x\"]''
        then Inr (PList [PStr (lit ''err''), PStr (lit ''ReferenceError: x'')])
      else Inl JSONDecodeError)"

section \<open>Synthesised programs\<close>

text \<open>
  \<open>json.dumps(s)\<close> of a text with the default \<open>ensure_ascii=True\<close>, from Python's library:
  the text in double quotes, the quote and the backslash escaped by a backslash, the
  control characters with a short escape by that, and every other character outside
  \<open>' '\<close> .. \<open>'~'\<close> as \<open>\uXXXX\<close>, above 0xFFFF as a surrogate pair.
\<close>

definition json_escape_char :: "codepoint \<Rightarrow> pystr" where
  "json_escape_char c =
     (if c = 34 then [92, 34]
      else if c = 92 then [92, 92]
      else if c = 8 then [92, 98]
      else if c = 12 then [92, 102]
      else if c = 10 then [92, 110]
      else if c = 13 then [92, 114]
      else if c = 9 then [92, 116]
      else if 32 \<le> c \<and> c \<le> 126 then [c]
      else if c < 0x10000 then [92, 117] @ format_04x c
      else [92, 117] @ format_04x (0xd800 + (c - 0x10000) div 1024 mod 1024)
         @ [92, 117] @ format_04x (0xdc00 + (c - 0x10000) mod 1024))"

definition json_dumps :: "pystr \<Rightarrow> pystr" where
  "json_dumps s = [34] @ concat (map json_escape_char s) @ [34]"

text \<open>
  The program that \<open>ExternalRuntime.Context.eval\<close> hands to \<open>exec_\<close>:
  \<open>data\<close> is \<open>"''"\<close> when \<open>source.strip()\<close> is empty, and
  \<open>"'('+" + json.dumps(source, ensure_ascii=True) + "+')'"\<close> otherwise;
  the program is \<open>'return eval({data})'.format(data=data)\<close>. The apostrophe is
  code point 39, \<open>(\<close> is 40, \<open>)\<close> is 41 and \<open>+\<close> is 43.
\<close>

definition eval_data :: "(pystr \<Rightarrow> pystr) \<Rightarrow> pystr \<Rightarrow> pystr" where
  "eval_data dumps source =
     (if strip source = [] then [39, 39]
      else [39, 40, 39, 43] @ dumps source @ [43, 39, 41, 39])"

definition eval_code :: "(pystr \<Rightarrow> pystr) \<Rightarrow> pystr \<Rightarrow> pystr" where
  "eval_code dumps source = lit ''return eval('' @ eval_data dumps source @ lit '')''"

section \<open>The process environment\<close>

text \<open>
  What the module reads from the operating system and from Python's library, collected
  in one record: the environment variables, the platform, \<open>os.pathsep\<close>, \<open>os.path.join\<close>,
  \<open>os.stat\<close> (the \<open>st_mode\<close> of a path, or the exception raised), whether \<open>import PyV8\<close>
  succeeds, the codecs, \<open>json.loads\<close> and \<open>json.dumps\<close>, the name \<open>tempfile.mkstemp\<close>
  picks, and what running a command does: its exit status and output and the files it
  leaves, or the exception raised by \<open>Popen\<close>.
\<close>

type_synonym filesystem = "pystr \<rightharpoonup> bytes"

record system =
  environ :: "pystr \<rightharpoonup> pystr"
  is_windows :: bool
  pathsep :: codepoint
  path_join :: "pystr \<Rightarrow> pystr \<Rightarrow> pystr"
  os_stat :: "pystr \<Rightarrow> py_error + nat"
  pyv8_importable :: bool
  encode :: "pystr \<Rightarrow> pystr \<Rightarrow> py_error + bytes"
  decode :: "pystr \<Rightarrow> bytes \<Rightarrow> py_error + pystr"
  loads :: "pystr \<Rightarrow> py_error + pyval"
  dumps :: "pystr \<Rightarrow> pystr"
  json2_source :: pystr
  mkstemp :: "filesystem \<Rightarrow> py_error + pystr"
  spawn :: "pystr list \<Rightarrow> filesystem \<Rightarrow> (py_error + int \<times> bytes) \<times> filesystem"

text \<open>\<open>os.environ.get(name, dflt)\<close>\<close>

definition environ_get :: "system \<Rightarrow> pystr \<Rightarrow> pystr \<Rightarrow> pystr" where
  "environ_get sys name dflt = (case environ sys name of None \<Rightarrow> dflt | Some v \<Rightarrow> v)"

text \<open>\<open>posixpath.join\<close> of two components, for instantiating \<open>path_join\<close>.\<close>

definition posix_join :: "pystr \<Rightarrow> pystr \<Rightarrow> pystr" where
  "posix_join a b =
     (if startswith b [47] then b
      else if a = [] \<or> last a = 47 then a @ b
      else a @ [47] @ b)"

section \<open>The binary locator\<close>

text \<open>\<open>stat.S_ISREG\<close> and \<open>stat.S_IMODE\<close>; in octal, \<open>0xF000\<close> is \<open>0o170000\<close>,
  \<open>0x8000\<close> is \<open>0o100000\<close>, \<open>0xFFF\<close> is \<open>0o7777\<close>, and \<open>0o111\<close> is 73.\<close>

definition S_ISREG :: "nat \<Rightarrow> bool" where
  "S_ISREG mode = ((mode AND 0xF000) = 0x8000)"

definition S_IMODE :: "nat \<Rightarrow> nat" where
  "S_IMODE mode = (mode AND 0xFFF)"

text \<open>
  \<open>_find_executable\<close>: the inner loop over the suffixes of one directory, the outer loop
  over the directories of \<open>PATH\<close>. An \<open>os.error\<close> of \<open>os.stat\<close> is caught and the next
  candidate is tried; any other exception propagates.
\<close>

fun find_in_dir :: "system \<Rightarrow> pystr \<Rightarrow> pystr \<Rightarrow> pystr list \<Rightarrow> py_error + pystr option" where
  "find_in_dir sys prog dir [] = Inr None"
| "find_in_dir sys prog dir (ext # exts) =
     (let filename = path_join sys dir (prog @ ext) in
      case os_stat sys filename of
        Inl e \<Rightarrow> if e = OSError then find_in_dir sys prog dir exts else Inl e
      | Inr st_mode \<Rightarrow>
          if S_ISREG st_mode \<and> (S_IMODE st_mode AND 73) \<noteq> 0 then Inr (Some filename)
          else find_in_dir sys prog dir exts)"

fun find_in_dirs :: "system \<Rightarrow> pystr \<Rightarrow> pystr list \<Rightarrow> pystr list \<Rightarrow> py_error + pystr option" where
  "find_in_dirs sys prog pathext [] = Inr None"
| "find_in_dirs sys prog pathext (dir # dirs) =
     (case find_in_dir sys prog dir pathext of
        Inl e \<Rightarrow> Inl e
      | Inr (Some filename) \<Rightarrow> Inr (Some filename)
      | Inr None \<Rightarrow> find_in_dirs sys prog pathext dirs)"

definition find_executable :: "system \<Rightarrow> pystr \<Rightarrow> pystr list \<Rightarrow> py_error + pystr option" where
  "find_executable sys prog pathext =
     find_in_dirs sys prog pathext (split (pathsep sys) (environ_get sys (lit ''PATH'') []))"

text \<open>A command as the configuration and the callers give it: one text, a list of texts,
  or \<open>None\<close>.\<close>

datatype command = CmdStr pystr | CmdList "pystr list" | CmdNone

text \<open>
  \<open>_which\<close>: \<open>list(None)\<close> is a \<open>TypeError\<close>, \<open>command[0]\<close> of an empty list an
  \<open>IndexError\<close>; \<open>not path\<close> holds for \<open>None\<close> and for the empty text.
\<close>

definition which :: "system \<Rightarrow> command \<Rightarrow> py_error + pystr list option" where
  "which sys command =
     (case (case command of CmdStr s \<Rightarrow> Inr [s] | CmdList l \<Rightarrow> Inr l | CmdNone \<Rightarrow> Inl TypeError) of
        Inl e \<Rightarrow> Inl e
      | Inr [] \<Rightarrow> Inl IndexError
      | Inr (name # args) \<Rightarrow>
          (case (if is_windows sys
                 then find_executable sys name
                        (split (pathsep sys) (environ_get sys (lit ''PATHEXT'') []))
                 else find_executable sys name [[]]) of
             Inl e \<Rightarrow> Inl e
           | Inr None \<Rightarrow> Inr None
           | Inr (Some path) \<Rightarrow> if path = [] then Inr None else Inr (Some (path # args))))"

section \<open>Runtime objects\<close>

text \<open>
  An \<open>ExternalRuntime\<close> object has the attributes set by \<open>__init__\<close> and, once
  \<open>_binary\<close> has run, \<open>_binary_cache\<close> (\<open>None\<close> below while the attribute is not set).
  A \<open>PyV8Runtime\<close> object has \<open>_is_available\<close> only. Objects live in a heap and are
  referred to by address, since the registry holds the same object under several names
  and \<open>_binary\<close> mutates it.
\<close>

record external_runtime =
  rt_name :: pystr
  rt_command :: command
  rt_runner_source :: pystr
  rt_encoding :: pystr
  rt_binary_cache :: "pystr list option option"

datatype runtime = ExternalRuntime external_runtime | PyV8Runtime bool

type_synonym addr = nat

record heap =
  obj :: "addr \<Rightarrow> runtime"
  fresh :: addr

definition empty_heap :: heap where
  "empty_heap = \<lparr>obj = (\<lambda>a. PyV8Runtime False), fresh = 0\<rparr>"

definition new_object :: "runtime \<Rightarrow> heap \<Rightarrow> addr \<times> heap" where
  "new_object r h = (fresh h, h\<lparr>obj := (obj h)(fresh h := r), fresh := Suc (fresh h)\<rparr>)"

definition ExternalRuntime_init :: "pystr \<Rightarrow> command \<Rightarrow> pystr \<Rightarrow> pystr \<Rightarrow> external_runtime" where
  "ExternalRuntime_init name command runner_source encoding =
     \<lparr>rt_name = name,
      rt_command = (case command of CmdStr s \<Rightarrow> CmdList [s] | c \<Rightarrow> c),
      rt_runner_source = runner_source,
      rt_encoding = encoding,
      rt_binary_cache = None\<rparr>"

text \<open>The \<open>name\<close> property of both classes.\<close>

fun name_of :: "runtime \<Rightarrow> pystr" where
  "name_of (ExternalRuntime r) = rt_name r"
| "name_of (PyV8Runtime b) = lit ''PyV8''"

text \<open>\<open>ExternalRuntime._binary\<close>: the result of \<open>_which\<close> is stored in the object the first
  time it is computed; when \<open>_which\<close> raises, nothing is stored.\<close>

definition binary :: "system \<Rightarrow> addr \<Rightarrow> heap \<Rightarrow> (py_error + pystr list option) \<times> heap" where
  "binary sys a h =
     (case obj h a of
        PyV8Runtime b \<Rightarrow> (Inl AttributeError, h)
      | ExternalRuntime r \<Rightarrow>
          (case rt_binary_cache r of
             Some cached \<Rightarrow> (Inr cached, h)
           | None \<Rightarrow>
               (case which sys (rt_command r) of
                  Inl e \<Rightarrow> (Inl e, h)
                | Inr found \<Rightarrow>
                    (Inr found,
                     h\<lparr>obj := (obj h)(a := ExternalRuntime (r\<lparr>rt_binary_cache := Some found\<rparr>))\<rparr>))))"

text \<open>\<open>is_available\<close> of either class.\<close>

definition is_available :: "system \<Rightarrow> addr \<Rightarrow> heap \<Rightarrow> (py_error + bool) \<times> heap" where
  "is_available sys a h =
     (case obj h a of
        PyV8Runtime b \<Rightarrow> (Inr b, h)
      | ExternalRuntime r \<Rightarrow>
          (case binary sys a h of
             (Inl e, h') \<Rightarrow> (Inl e, h')
           | (Inr found, h') \<Rightarrow> (Inr (found \<noteq> None), h')))"

section \<open>The registry and the selector\<close>

text \<open>
  \<open>_runtimes\<close> is an \<open>OrderedDict\<close> from names to runtime objects: an association list in
  insertion order, holding addresses. Assigning to a key that is present keeps the
  key's position; a new key goes to the end.
\<close>

type_synonym registry = "(pystr \<times> addr) list"

fun od_set :: "registry \<Rightarrow> pystr \<Rightarrow> addr \<Rightarrow> registry" where
  "od_set [] name a = [(name, a)]"
| "od_set ((k, v) # kvs) name a =
     (if k = name then (k, a) # kvs else (k, v) # od_set kvs name a)"

definition register :: "pystr \<Rightarrow> addr \<Rightarrow> registry \<Rightarrow> registry" where
  "register name runtime reg = od_set reg name runtime"

definition runtimes :: "registry \<Rightarrow> pystr \<rightharpoonup> addr" where
  "runtimes reg = map_of reg"

text \<open>
  \<open>get(name)\<close> for a name that is not \<open>None\<close>: the lookup, then the availability check
  with its two messages.
\<close>

definition get_named :: "system \<Rightarrow> registry \<Rightarrow> pystr \<Rightarrow> heap \<Rightarrow> (py_error + addr) \<times> heap" where
  "get_named sys reg name h =
     (case runtimes reg name of
        None \<Rightarrow> (Inl (RuntimeUnavailable (Some (name @ lit '' runtime is not defined''))), h)
      | Some a \<Rightarrow>
          (case is_available sys a h of
             (Inl e, h') \<Rightarrow> (Inl e, h')
           | (Inr ok, h') \<Rightarrow>
               if \<not> ok
               then (Inl (RuntimeUnavailable
                            (Some (name_of (obj h' a)
                                   @ lit '' runtime is not available on this system''))), h')
               else (Inr a, h')))"

text \<open>\<open>get_from_environment\<close>: \<open>None\<close> when \<open>EXECJS_RUNTIME\<close> is unset or empty,
  \<open>get(name)\<close> otherwise.\<close>

definition get_from_environment :: "system \<Rightarrow> registry \<Rightarrow> heap \<Rightarrow> (py_error + addr option) \<times> heap" where
  "get_from_environment sys reg h =
     (case environ sys (lit ''EXECJS_RUNTIME'') of
        None \<Rightarrow> (Inr None, h)
      | Some name \<Rightarrow>
          if name = [] then (Inr None, h)
          else (case get_named sys reg name h of
                  (Inl e, h') \<Rightarrow> (Inl e, h')
                | (Inr a, h') \<Rightarrow> (Inr (Some a), h')))"

text \<open>The loop of \<open>_auto_detect\<close> over \<open>_runtimes.values()\<close>.\<close>

fun first_available :: "system \<Rightarrow> addr list \<Rightarrow> heap \<Rightarrow> (py_error + addr option) \<times> heap" where
  "first_available sys [] h = (Inr None, h)"
| "first_available sys (a # as) h =
     (case is_available sys a h of
        (Inl e, h') \<Rightarrow> (Inl e, h')
      | (Inr ok, h') \<Rightarrow> if ok then (Inr (Some a), h') else first_available sys as h')"

definition auto_detect :: "system \<Rightarrow> registry \<Rightarrow> heap \<Rightarrow> (py_error + addr) \<times> heap" where
  "auto_detect sys reg h =
     (case get_from_environment sys reg h of
        (Inl e, h') \<Rightarrow> (Inl e, h')
      | (Inr (Some a), h') \<Rightarrow> (Inr a, h')
      | (Inr None, h') \<Rightarrow>
          (case first_available sys (map snd reg) h' of
             (Inl e, h'') \<Rightarrow> (Inl e, h'')
           | (Inr (Some a), h'') \<Rightarrow> (Inr a, h'')
           | (Inr None, h'') \<Rightarrow>
               (Inl (RuntimeUnavailable (Some (lit ''Could not find a JavaScript runtime.''))), h'')))"

text \<open>\<open>get(name=None)\<close>\<close>

definition get :: "system \<Rightarrow> registry \<Rightarrow> pystr option \<Rightarrow> heap \<Rightarrow> (py_error + addr) \<times> heap" where
  "get sys reg name h =
     (case name of None \<Rightarrow> auto_detect sys reg h | Some n \<Rightarrow> get_named sys reg n h)"

section \<open>Building the registry\<close>

text \<open>
  One entry of \<open>runtimes_config.config\<close>: the commands to try, the keyword arguments of
  the constructor, the class name (\<open>None\<close> when the key \<open>runtime_type\<close> is missing) and
  the alternate names (empty when the key is missing).
\<close>

record runtime_kwargs =
  kw_name :: "pystr option"
  kw_runner_source :: "pystr option"
  kw_encoding :: "pystr option"

record runtime_config =
  commands_to_try :: "command list"
  kwargs :: runtime_kwargs
  runtime_type :: "pystr option"
  alternate_names :: "pystr list"

text \<open>
  \<open>cls(command=command_to_try, **config['kwargs'])\<close> for the two runtime classes of the
  module. \<open>ExternalRuntime\<close> requires \<open>name\<close> and \<open>runner_source\<close> and takes \<open>'utf8'\<close>
  as the default encoding; \<open>PyV8Runtime\<close> accepts any arguments and records whether
  \<open>PyV8\<close> can be imported.
\<close>

definition known_class :: "pystr \<Rightarrow> bool" where
  "known_class clsname = (clsname = lit ''ExternalRuntime'' \<or> clsname = lit ''PyV8Runtime'')"

definition construct :: "system \<Rightarrow> pystr \<Rightarrow> command \<Rightarrow> runtime_kwargs \<Rightarrow> py_error + runtime" where
  "construct sys clsname command kw =
     (if clsname = lit ''ExternalRuntime''
      then (case kw_name kw of
              None \<Rightarrow> Inl TypeError
            | Some name \<Rightarrow>
                (case kw_runner_source kw of
                   None \<Rightarrow> Inl TypeError
                 | Some src \<Rightarrow>
                     Inr (ExternalRuntime
                            (ExternalRuntime_init name command src
                               (case kw_encoding kw of None \<Rightarrow> lit ''utf8'' | Some enc \<Rightarrow> enc)))))
      else Inr (PyV8Runtime (pyv8_importable sys)))"

text \<open>The loop over \<open>commands_to_try\<close> of one family: every candidate is constructed and
  stored under all names of the family before it is probed; the loop ends at the first
  available candidate.\<close>

fun probe_commands ::
  "system \<Rightarrow> pystr \<Rightarrow> runtime_kwargs \<Rightarrow> pystr list \<Rightarrow> command list \<Rightarrow> registry \<times> heap
     \<Rightarrow> py_error + registry \<times> heap" where
  "probe_commands sys clsname kw names [] (reg, h) = Inr (reg, h)"
| "probe_commands sys clsname kw names (command_to_try # rest) (reg, h) =
     (case construct sys clsname command_to_try kw of
        Inl e \<Rightarrow> Inl e
      | Inr r \<Rightarrow>
          (let (a, h1) = new_object r h;
               reg1 = fold (\<lambda>name acc. od_set acc name a) names reg
           in case is_available sys a h1 of
                (Inl e, h2) \<Rightarrow> Inl e
              | (Inr ok, h2) \<Rightarrow>
                  if ok then Inr (reg1, h2)
                  else probe_commands sys clsname kw names rest (reg1, h2)))"

text \<open>The body of the outer loop: \<open>config[runtime_name]\<close> may raise \<open>KeyError\<close>,
  \<open>class_name\<close> is \<open>config.get('runtime_type', 'ExternalRuntime')\<close>, and \<open>getattr\<close> of a
  name that is none of the runtime classes raises \<open>AttributeError\<close>.\<close>

definition class_name :: "runtime_config \<Rightarrow> pystr" where
  "class_name c = (case runtime_type c of None \<Rightarrow> lit ''ExternalRuntime'' | Some n \<Rightarrow> n)"

definition setup_family ::
  "system \<Rightarrow> (pystr \<rightharpoonup> runtime_config) \<Rightarrow> pystr \<Rightarrow> registry \<times> heap \<Rightarrow> py_error + registry \<times> heap" where
  "setup_family sys config runtime_name st =
     (case config runtime_name of
        None \<Rightarrow> Inl KeyError
      | Some c \<Rightarrow>
          if \<not> known_class (class_name c) then Inl AttributeError
          else probe_commands sys (class_name c) (kwargs c) (runtime_name # alternate_names c)
                 (commands_to_try c) st)"

fun setup_loop ::
  "system \<Rightarrow> (pystr \<rightharpoonup> runtime_config) \<Rightarrow> pystr list \<Rightarrow> registry \<times> heap \<Rightarrow> py_error + registry \<times> heap" where
  "setup_loop sys config [] st = Inr st"
| "setup_loop sys config (runtime_name # rest) st =
     (case setup_family sys config runtime_name st of
        Inl e \<Rightarrow> Inl e
      | Inr st' \<Rightarrow> setup_loop sys config rest st')"

text \<open>\<open>_setup_runtimes\<close>, with the order and the configuration of \<open>runtimes_config\<close> as
  parameters.\<close>

definition setup_runtimes ::
  "system \<Rightarrow> pystr list \<Rightarrow> (pystr \<rightharpoonup> runtime_config) \<Rightarrow> py_error + registry \<times> heap" where
  "setup_runtimes sys preferred_order config = setup_loop sys config preferred_order ([], empty_heap)"

text \<open>
  The order and the table of \<open>runtimes_config\<close>. The runner templates of
  \<open>runner_source\<close> are JavaScript texts that nothing here interprets; they are taken as
  given (\<open>slimerjs\<close> is the same text as \<open>phantomjs\<close>).
\<close>

record runner_sources =
  javascriptcore :: pystr
  jscript :: pystr
  node :: pystr
  phantomjs :: pystr
  spidermonkey :: pystr

definition runtime_preferred_order :: "pystr list" where
  "runtime_preferred_order =
     [lit ''PyV8'', lit ''Node'', lit ''JavaScriptCore'', lit ''SpiderMonkey'',
      lit ''JScript'', lit ''PhantomJS'', lit ''SlimerJS'']"

definition config_items :: "runner_sources \<Rightarrow> (pystr \<times> runtime_config) list" where
  "config_items rs =
     [(lit ''JavaScriptCore'',
       \<lparr>commands_to_try =
          [CmdStr (lit ''/System/Library/Frameworks/JavaScriptCore.framework/Versions/A/Resources/jsc'')],
        kwargs = \<lparr>kw_name = Some (lit ''JavaScriptCore''),
                  kw_runner_source = Some (javascriptcore rs), kw_encoding = None\<rparr>,
        runtime_type = None, alternate_names = []\<rparr>),
      (lit ''JScript'',
       \<lparr>commands_to_try = [CmdList [lit ''cscript'', lit ''//E:jscript'', lit ''//Nologo'']],
        kwargs = \<lparr>kw_name = Some (lit ''JScript''),
                  kw_runner_source = Some (jscript rs), kw_encoding = Some (lit ''ascii'')\<rparr>,
        runtime_type = None, alternate_names = []\<rparr>),
      (lit ''Node'',
       \<lparr>commands_to_try = [CmdStr (lit ''nodejs''), CmdStr (lit ''node'')],
        kwargs = \<lparr>kw_name = Some (lit ''Node.js (V8)''),
                  kw_runner_source = Some (node rs), kw_encoding = Some (lit ''UTF-8'')\<rparr>,
        runtime_type = None, alternate_names = []\<rparr>),
      (lit ''PhantomJS'',
       \<lparr>commands_to_try = [CmdStr (lit ''phantomjs'')],
        kwargs = \<lparr>kw_name = Some (lit ''PhantomJS''),
                  kw_runner_source = Some (phantomjs rs), kw_encoding = None\<rparr>,
        runtime_type = None, alternate_names = []\<rparr>),
      (lit ''PyV8'',
       \<lparr>commands_to_try = [CmdNone],
        kwargs = \<lparr>kw_name = None, kw_runner_source = None, kw_encoding = None\<rparr>,
        runtime_type = Some (lit ''PyV8Runtime''), alternate_names = []\<rparr>),
      (lit ''SlimerJS'',
       \<lparr>commands_to_try = [CmdStr (lit ''slimerjs'')],
        kwargs = \<lparr>kw_name = Some (lit ''SlimerJS''),
                  kw_runner_source = Some (phantomjs rs), kw_encoding = None\<rparr>,
        runtime_type = None, alternate_names = []\<rparr>),
      (lit ''SpiderMonkey'',
       \<lparr>commands_to_try = [CmdStr (lit ''js'')],
        kwargs = \<lparr>kw_name = Some (lit ''SpiderMonkey''),
                  kw_runner_source = Some (spidermonkey rs), kw_encoding = None\<rparr>,
        runtime_type = None, alternate_names = [lit ''Spidermonkey'']\<rparr>)]"

definition config :: "runner_sources \<Rightarrow> pystr \<rightharpoonup> runtime_config" where
  "config rs = map_of (config_items rs)"

section \<open>Execution contexts\<close>

text \<open>
  The state that an execution changes: the heap of runtime objects (\<open>_binary\<close> caches its
  result) and the files. A \<open>Context\<close> holds its runtime and its preamble.
\<close>

record world =
  objects :: heap
  files :: filesystem

record exec_context =
  ctx_runtime :: addr
  ctx_source :: pystr

text \<open>
  \<open>re.sub(pattern, ...)\<close> where the pattern is the alternation of the escaped keys of
  \<open>replacements\<close>: scanning from the left, the first key that matches at a position is
  replaced and the scan goes on behind it (\<open>skip\<close> counts the characters of a matched
  key still to pass over); the keys are not empty.
\<close>

fun re_sub :: "(pystr \<times> pystr) list \<Rightarrow> nat \<Rightarrow> pystr \<Rightarrow> pystr" where
  "re_sub replacements skip [] = []"
| "re_sub replacements skip (c # cs) =
     (if 0 < skip then re_sub replacements (skip - 1) cs
      else (case find (\<lambda>kv. startswith (c # cs) (fst kv)) replacements of
              Some kv \<Rightarrow> snd kv @ re_sub replacements (length (fst kv) - 1) cs
            | None \<Rightarrow> c # re_sub replacements 0 cs))"

text \<open>\<open>Context._compile\<close>, given the runner template of the context's runtime.\<close>

definition Context_compile :: "system \<Rightarrow> pystr \<Rightarrow> pystr \<Rightarrow> pystr" where
  "Context_compile sys runner_source source =
     re_sub
       [(lit ''#{source}'', source),
        (lit ''#{encoded_source}'',
           dumps sys (lit ''(function(){ '' @ encode_unicode_codepoints source @ lit '' })()'')),
        (lit ''#{json2_source}'', json2_source sys)]
       0 runner_source"

text \<open>
  \<open>ExternalRuntime._execfile\<close>: \<open>self._binary() + [filename]\<close> is a \<open>TypeError\<close> when no
  binary was found; an exit status other than 0 raises \<open>RuntimeError\<close> with the output.
\<close>

definition execfile :: "system \<Rightarrow> addr \<Rightarrow> pystr \<Rightarrow> world \<Rightarrow> (py_error + bytes) \<times> world" where
  "execfile sys a filename w =
     (case binary sys a (objects w) of
        (Inl e, h) \<Rightarrow> (Inl e, w\<lparr>objects := h\<rparr>)
      | (Inr None, h) \<Rightarrow> (Inl TypeError, w\<lparr>objects := h\<rparr>)
      | (Inr (Some cmd), h) \<Rightarrow>
          (case spawn sys (cmd @ [filename]) (files w) of
             (Inl e, fs) \<Rightarrow> (Inl e, \<lparr>objects = h, files = fs\<rparr>)
           | (Inr (ret, stdoutdata), fs) \<Rightarrow>
               (if ret = 0 then Inr stdoutdata else Inl (RuntimeError (PBytes stdoutdata)),
                \<lparr>objects = h, files = fs\<rparr>)))"

text \<open>
  The \<open>try\<close> block of \<open>Context.exec_\<close>: the file is opened for writing (and so emptied)
  with the runtime's encoding, the compiled program is written, and the file is run.
  A \<open>PyV8Runtime\<close> object has no \<open>_encoding\<close>.
\<close>

definition exec_try :: "system \<Rightarrow> exec_context \<Rightarrow> pystr \<Rightarrow> pystr \<Rightarrow> world \<Rightarrow> (py_error + bytes) \<times> world" where
  "exec_try sys ctx source filename w =
     (case obj (objects w) (ctx_runtime ctx) of
        PyV8Runtime b \<Rightarrow> (Inl AttributeError, w)
      | ExternalRuntime r \<Rightarrow>
          (case encode sys (rt_encoding r) (Context_compile sys (rt_runner_source r) source) of
             Inl e \<Rightarrow> (Inl e, w\<lparr>files := (files w)(filename \<mapsto> [])\<rparr>)
           | Inr data \<Rightarrow>
               execfile sys (ctx_runtime ctx) filename (w\<lparr>files := (files w)(filename \<mapsto> data)\<rparr>)))"

text \<open>\<open>os.remove\<close>: the file is gone afterwards; removing a file that does not exist
  raises an \<open>OSError\<close>.\<close>

definition os_remove :: "pystr \<Rightarrow> world \<Rightarrow> (py_error + unit) \<times> world" where
  "os_remove filename w =
     (if filename \<in> dom (files w) then (Inr (), w\<lparr>files := (files w)(filename := None)\<rparr>)
      else (Inl OSError, w))"

text \<open>The statements of \<open>Context.exec_\<close> after the \<open>finally\<close> clause: decoding, the
  normalisation of line ends, the choice of the line and its extraction.\<close>

definition exec_output :: "system \<Rightarrow> pystr \<Rightarrow> bytes \<Rightarrow> py_error + pyval" where
  "exec_output sys encoding output =
     (case decode sys encoding output of
        Inl e \<Rightarrow> Inl e
      | Inr decoded \<Rightarrow>
          (case getitem (split 10 (replace [13] [10] (replace [13, 10] [10] decoded))) (- 2) of
             Inl e \<Rightarrow> Inl e
           | Inr line \<Rightarrow> extract_result (loads sys) line))"

text \<open>
  \<open>ExternalRuntime.Context.exec_\<close>. \<open>mkstemp\<close> creates the file, the \<open>try\<close> block runs,
  and the \<open>finally\<close> clause removes the file whatever the block did; an exception of the
  \<open>finally\<close> clause replaces the one of the block.
\<close>

definition Context_exec :: "system \<Rightarrow> exec_context \<Rightarrow> pystr \<Rightarrow> world \<Rightarrow> (py_error + pyval) \<times> world" where
  "Context_exec sys ctx source0 w =
     (let source = (if ctx_source ctx \<noteq> [] then ctx_source ctx @ [10] @ source0 else source0) in
      case mkstemp sys (files w) of
        Inl e \<Rightarrow> (Inl e, w)
      | Inr filename \<Rightarrow>
          (let (r, w1) = exec_try sys ctx source filename (w\<lparr>files := (files w)(filename \<mapsto> [])\<rparr>);
               (removed, w2) = os_remove filename w1
           in case removed of
                Inl e \<Rightarrow> (Inl e, w2)
              | Inr u \<Rightarrow>
                  (case r of
                     Inl e \<Rightarrow> (Inl e, w2)
                   | Inr output \<Rightarrow>
                       (case obj (objects w2) (ctx_runtime ctx) of
                          PyV8Runtime b \<Rightarrow> (Inl AttributeError, w2)
                        | ExternalRuntime rt \<Rightarrow> (exec_output sys (rt_encoding rt) output, w2)))))"

text \<open>\<open>ExternalRuntime.Context.eval\<close>\<close>

definition Context_eval :: "system \<Rightarrow> exec_context \<Rightarrow> pystr \<Rightarrow> world \<Rightarrow> (py_error + pyval) \<times> world" where
  "Context_eval sys ctx source w = Context_exec sys ctx (eval_code (dumps sys) source) w"

section \<open>Notions used in the statements\<close>

text \<open>
  The directories of \<open>PATH\<close> and the suffixes that \<open>_which\<close> passes on, the file names
  that the two loops of \<open>_find_executable\<close> build, directory by directory and within a
  directory suffix by suffix, and the test a file name has to pass.
\<close>

definition search_path :: "system \<Rightarrow> pystr list" where
  "search_path sys = split (pathsep sys) (environ_get sys (lit ''PATH'') [])"

definition suffixes :: "system \<Rightarrow> pystr list" where
  "suffixes sys =
     (if is_windows sys then split (pathsep sys) (environ_get sys (lit ''PATHEXT'') []) else [[]])"

definition candidates :: "system \<Rightarrow> pystr \<Rightarrow> pystr list \<Rightarrow> pystr list \<Rightarrow> pystr list" where
  "candidates sys prog pathext dirs =
     concat (map (\<lambda>dir. map (\<lambda>ext. path_join sys dir (prog @ ext)) pathext) dirs)"

definition executable_file :: "system \<Rightarrow> pystr \<Rightarrow> bool" where
  "executable_file sys filename =
     (case os_stat sys filename of
        Inl e \<Rightarrow> False
      | Inr st_mode \<Rightarrow> S_ISREG st_mode \<and> (S_IMODE st_mode AND 73) \<noteq> 0)"

text \<open>\<open>stat_fails_quietly\<close>: on these file names \<open>os.stat\<close> raises nothing but \<open>os.error\<close>.\<close>

definition stat_fails_quietly :: "system \<Rightarrow> pystr list \<Rightarrow> bool" where
  "stat_fails_quietly sys filenames =
     list_all (\<lambda>f. case os_stat sys f of Inl e \<Rightarrow> e = OSError | Inr st_mode \<Rightarrow> True) filenames"

text \<open>
  A system for the examples: a POSIX machine with \<open>PATH=/usr/bin:/bin\<close>, where
  \<open>/usr/bin/js\<close>, \<open>/bin/js\<close> and \<open>/bin/node\<close> are executable regular files (mode
  \<open>0o100755\<close>, 33261), \<open>/usr/bin/node\<close> is a directory (mode \<open>0o040755\<close>, 16877) and no
  other path exists; an ASCII codec; an engine that prints an empty line and
  \<open>["ok", 3]\<close> and exits with status 0.
\<close>

definition ascii_codec :: "nat list \<Rightarrow> py_error + nat list" where
  "ascii_codec xs = (if list_all (\<lambda>x. x < 128) xs then Inr xs else Inl UnicodeError)"

definition sample_system :: system where
  "sample_system =
     \<lparr>environ = [lit ''PATH'' \<mapsto> lit ''/usr/bin:/bin''],
      is_windows = False,
      pathsep = 58,
      path_join = posix_join,
      os_stat = (\<lambda>p. if p = lit ''/usr/bin/js'' \<or> p = lit ''/bin/js'' \<or> p = lit ''/bin/node''
                       then Inr 33261
                     else if p = lit ''/usr/bin/node'' then Inr 16877
                     else Inl OSError),
      pyv8_importable = False,
      encode = (\<lambda>encoding. ascii_codec),
      decode = (\<lambda>encoding. ascii_codec),
      loads = loads_envelopes,
      dumps = json_dumps,
      json2_source = [],
      mkstemp = (\<lambda>fs. Inr (lit ''/tmp/execjs0.js'')),
      spawn = (\<lambda>cmd fs. (Inr (0, [10] @ lit ''[\"ok\", 3]'' @ [10]), fs))\<rparr>"

text \<open>
  What \<open>is_available()\<close> of an object returns in a system, as a function of the object
  alone, and the condition that it returns a truth value (raises nothing) for every
  runtime of a registry.
\<close>

definition available :: "system \<Rightarrow> runtime \<Rightarrow> py_error + bool" where
  "available sys r =
     (case r of
        PyV8Runtime b \<Rightarrow> Inr b
      | ExternalRuntime x \<Rightarrow>
          (case rt_binary_cache x of
             Some cached \<Rightarrow> Inr (cached \<noteq> None)
           | None \<Rightarrow>
               (case which sys (rt_command x) of
                  Inl e \<Rightarrow> Inl e
                | Inr found \<Rightarrow> Inr (found \<noteq> None))))"

definition probes_return :: "system \<Rightarrow> registry \<Rightarrow> heap \<Rightarrow> bool" where
  "probes_return sys reg h = list_all (\<lambda>a. \<not> isl (fst (is_available sys a h))) (map snd reg)"

text \<open>
  A registry for the examples, on a heap of three objects: \<open>PyV8\<close> (not importable),
  \<open>PhantomJS\<close> (no \<open>phantomjs\<close> on the sample system's path) and \<open>Node\<close> (found as
  \<open>/bin/node\<close>), none of them probed yet.
\<close>

definition sample_heap :: heap where
  "sample_heap =
     \<lparr>obj = (\<lambda>a. if a = 1 then ExternalRuntime
                              (ExternalRuntime_init (lit ''PhantomJS'') (CmdStr (lit ''phantomjs'')) [] (lit ''utf8''))
                  else if a = 2 then ExternalRuntime
                              (ExternalRuntime_init (lit ''Node.js (V8)'') (CmdStr (lit ''node'')) [] (lit ''UTF-8''))
                  else PyV8Runtime False),
      fresh = 3\<rparr>"

definition sample_registry :: registry where
  "sample_registry = [(lit ''PyV8'', 0), (lit ''PhantomJS'', 1), (lit ''Node'', 2)]"

text \<open>
  Line ends as the specification words them: all line-ending styles are brought to the
  single line feed. Reading from the left, a carriage return followed by a line feed
  becomes one line feed, any other carriage return becomes a line feed, and every other
  character stays. This definition follows the specification, not the code; it is
  compared below with the two \<open>replace\<close> calls of \<open>exec_\<close>.
\<close>

fun line_ends :: "pystr \<Rightarrow> pystr" where
  "line_ends [] = []"
| "line_ends [c] = (if c = 13 then [10] else [c])"
| "line_ends (c # d # cs) =
     (if c = 13 \<and> d = 10 then 10 # line_ends cs
      else if c = 13 then 10 # line_ends (d # cs)
      else c # line_ends (d # cs))"

text \<open>A context on the \<open>Node\<close> runtime of the sample heap, without a preamble, in a
  world that has no files yet.\<close>

definition sample_context :: exec_context where
  "sample_context = \<lparr>ctx_runtime = 2, ctx_source = []\<rparr>"

definition sample_world :: world where
  "sample_world = \<lparr>objects = sample_heap, files = Map.empty\<rparr>"

text \<open>
  For the construction of the registry: the names a family is stored under; whether a
  candidate command of a family, once constructed, is available; the first element of a
  list with a property, or the last element when there is none; how many elements a
  loop visits that stops behind the first element with a property; and an object
  without its cache, which is the object as the constructor returned it.
\<close>

definition names_of :: "(pystr \<rightharpoonup> runtime_config) \<Rightarrow> pystr \<Rightarrow> pystr list" where
  "names_of cfg f = (case cfg f of None \<Rightarrow> [f] | Some c \<Rightarrow> f # alternate_names c)"

definition candidate_available :: "system \<Rightarrow> pystr \<Rightarrow> runtime_kwargs \<Rightarrow> command \<Rightarrow> bool" where
  "candidate_available sys clsname kw cmd =
     (case construct sys clsname cmd kw of Inl e \<Rightarrow> False | Inr r \<Rightarrow> available sys r = Inr True)"

definition first_or_last :: "('a \<Rightarrow> bool) \<Rightarrow> 'a list \<Rightarrow> 'a" where
  "first_or_last P xs = (case find P xs of Some x \<Rightarrow> x | None \<Rightarrow> last xs)"

definition visited :: "('a \<Rightarrow> bool) \<Rightarrow> 'a list \<Rightarrow> nat" where
  "visited P xs =
     (case find P xs of
        None \<Rightarrow> length xs
      | Some x \<Rightarrow> Suc (length (takeWhile (\<lambda>y. \<not> P y) xs)))"

fun uncached :: "runtime \<Rightarrow> runtime" where
  "uncached (ExternalRuntime x) = ExternalRuntime (x\<lparr>rt_binary_cache := None\<rparr>)"
| "uncached (PyV8Runtime b) = PyV8Runtime b"

text \<open>The number of candidates of a family that the inner loop constructs and probes.\<close>

definition probed :: "system \<Rightarrow> (pystr \<rightharpoonup> runtime_config) \<Rightarrow> pystr \<Rightarrow> nat" where
  "probed sys cfg f =
     (case cfg f of
        None \<Rightarrow> 0
      | Some c \<Rightarrow> visited (candidate_available sys (class_name c) (kwargs c)) (commands_to_try c))"

text \<open>Runner templates for the examples: the texts do not matter here.\<close>

definition sample_runner_sources :: runner_sources where
  "sample_runner_sources =
     \<lparr>javascriptcore = [], jscript = [], node = [], phantomjs = [], spidermonkey = []\<rparr>"

section \<open>Escaping: proofs\<close>



















section \<open>Result extraction: proofs\<close>

text \<open>
  C1 (as amended). For every decoder and every non-empty line: a line that decodes to
  \<open>["ok", v]\<close> returns \<open>v\<close> (so \<open>["ok", 3]\<close> returns 3); a line that decodes to \<open>["ok"]\<close>
  returns \<open>None\<close>; a line that decodes to \<open>["err", msg]\<close> raises \<open>RuntimeError\<close> when
  \<open>msg\<close> begins with \<open>SyntaxError:\<close> and \<open>ProgramError\<close> otherwise. The empty line is
  not a success: it returns no value.
\<close>

theorem extract_result_envelopes:
  "(l1 \<noteq> [] \<and> decoder l1 = Inr (PList [PStr (lit ''ok''), v]) \<longrightarrow>
      extract_result decoder l1 = Inr v) \<and>
   (l2 \<noteq> [] \<and> decoder l2 = Inr (PList [PStr (lit ''ok'')]) \<longrightarrow>
      extract_result decoder l2 = Inr PNone) \<and>
   (l3 \<noteq> [] \<and> decoder l3 = Inr (PList [PStr (lit ''err''), PStr m3]) \<and>
      startswith m3 (lit ''SyntaxError:'') \<longrightarrow>
      extract_result decoder l3 = Inl (RuntimeError (PStr m3))) \<and>
   (l4 \<noteq> [] \<and> decoder l4 = Inr (PList [PStr (lit ''err''), PStr m4]) \<and>
      \<not> startswith m4 (lit ''SyntaxError:'') \<longrightarrow>
      extract_result decoder l4 = Inl (ProgramError (PStr m4))) \<and>
   isl (extract_result decoder [])"
  by (simp add: extract_result_def unpack2_def getitem_def lit_def)

theorem extract_result_envelopes_witness:
  "extract_result loads_envelopes (lit ''[\"ok\", 3]'') = Inr (PInt 3) \<and>
   extract_result loads_envelopes (lit ''[\"ok\"]'') = Inr PNone \<and>
   extract_result loads_envelopes (lit ''[\"err\",\"SyntaxError: x\"]'')
     = Inl (RuntimeError (PStr (lit ''SyntaxError: x''))) \<and>
   extract_result loads_envelopes (lit ''[\"err\",\"ReferenceError: x\"]'')
     = Inl (ProgramError (PStr (lit ''ReferenceError: x''))) \<and>
   isl (extract_result loads_envelopes [])"
  using extract_result_envelopes[where decoder = loads_envelopes
      and ?l1.0 = "lit ''[\"ok\", 3]''" and v = "PInt 3"
      and ?l2.0 = "lit ''[\"ok\"]''"
      and ?l3.0 = "lit ''[\"err\",\"SyntaxError: x\"]''" and ?m3.0 = "lit ''SyntaxError: x''"
      and ?l4.0 = "lit ''[\"err\",\"ReferenceError: x\"]''" and ?m4.0 = "lit ''ReferenceError: x''"]
  by (simp add: loads_envelopes_def lit_def startswith_def)

theorem extract_result_empty_line_counterexample:
  "extract_result loads_envelopes [] \<noteq> Inr PNone"
  by (simp add: extract_result_def)

text \<open>
  C2 (what the code does). A line that decodes to a one-element list whose status is not
  \<open>"ok"\<close> gets the value \<open>None\<close>, and \<open>None.startswith\<close> raises \<open>AttributeError\<close>: neither
  \<open>ProgramError\<close> nor any other exception of the module is raised.
\<close>

theorem extract_result_status_only:
  "line \<noteq> [] \<Longrightarrow> decoder line = Inr (PList [status]) \<Longrightarrow> status \<noteq> PStr (lit ''ok'') \<Longrightarrow>
     extract_result decoder line = Inl AttributeError"
  by (simp add: extract_result_def unpack2_def getitem_def)

theorem extract_result_status_only_witness:
  "extract_result loads_envelopes (lit ''[\"err\"]'') = Inl AttributeError"
  using extract_result_status_only[where decoder = loads_envelopes
      and line = "lit ''[\"err\"]''" and status = "PStr (lit ''err'')"]
  by (simp add: loads_envelopes_def lit_def)

section \<open>Synthesised programs: proofs\<close>

lemma dropWhile_all_iff: "(\<forall>c\<in>set (dropWhile P s). P c) \<longleftrightarrow> (\<forall>c\<in>set s. P c)"
proof
  assume a: "\<forall>c\<in>set (dropWhile P s). P c"
  have "dropWhile P s = []"
  proof (cases "dropWhile P s")
    case Nil
    then show ?thesis .
  next
    case (Cons x xs)
    then have "\<not> P x" using hd_dropWhile[of P s] by simp
    with a Cons show ?thesis by simp
  qed
  then show "\<forall>c\<in>set s. P c" by (simp add: dropWhile_eq_Nil_conv)
next
  assume "\<forall>c\<in>set s. P c"
  then show "\<forall>c\<in>set (dropWhile P s). P c" by (auto dest: set_dropWhileD)
qed

lemma strip_empty_iff: "strip s = [] \<longleftrightarrow> (\<forall>c\<in>set s. isspace c)"
  by (simp add: strip_def dropWhile_eq_Nil_conv dropWhile_all_iff)

lemma hex_digit_ascii: "d < 16 \<Longrightarrow> hex_digit d < 128"
  by (simp add: hex_digit_def)

lemma format_x_ascii: "\<forall>c\<in>set (format_x n). c < 128"
proof (induction n rule: format_x.induct)
  case (1 n)
  show ?case
  proof (cases "n < 16")
    case True
    then show ?thesis
      by (subst format_x.simps) (simp add: hex_digit_ascii)
  next
    case False
    with 1 have "\<forall>c\<in>set (format_x (n div 16)). c < 128" by simp
    with False show ?thesis
      by (subst format_x.simps) (simp add: hex_digit_ascii)
  qed
qed

lemma format_04x_ascii: "\<forall>c\<in>set (format_04x n). c < 128"
  using format_x_ascii[of n] by (auto simp: format_04x_def Let_def)

lemma json_escape_char_ascii: "\<forall>x\<in>set (json_escape_char c). x < 128"
  using format_04x_ascii by (auto simp: json_escape_char_def)

lemma json_dumps_quoted_ascii:
  "hd (json_dumps s) = 34 \<and> last (json_dumps s) = 34 \<and> (\<forall>c\<in>set (json_dumps s). c < 128)"
  using json_escape_char_ascii by (auto simp: json_dumps_def)

text \<open>
  C7 (as amended). \<open>Context.eval\<close> delegates to \<open>exec_\<close> with a synthesised program. For
  an expression that is not empty or whitespace-only the program is
  \<open>return eval('('+L+')')\<close>, where \<open>L\<close> is \<open>json.dumps\<close> of the expression: the literal
  stands between the literals \<open>'('\<close> and \<open>')'\<close>. For an empty or whitespace-only
  expression the program is \<open>return eval('')\<close>. The literal that \<open>json.dumps\<close> writes
  is in double quotes and has no character outside ASCII.
\<close>

theorem Context_eval_program:
  "Context_eval sys ctx source w = Context_exec sys ctx (eval_code (dumps sys) source) w \<and>
   eval_code d source =
     (if \<forall>c\<in>set source. isspace c then lit ''return eval('' @ [39, 39] @ lit '')''
      else lit ''return eval('' @ [39, 40, 39, 43] @ d source @ [43, 39, 41, 39] @ lit '')'') \<and>
   hd (json_dumps source) = 34 \<and> last (json_dumps source) = 34 \<and>
   (\<forall>c\<in>set (json_dumps source). c < 128)"
  using json_dumps_quoted_ascii[of source]
  by (simp add: Context_eval_def eval_code_def eval_data_def strip_empty_iff)

lemmas dumps_eval = json_dumps_def json_escape_char_def

theorem Context_eval_program_witness:
  "eval_code json_dumps (lit ''1+1'')
     = lit ''return eval('' @ [39, 40, 39, 43] @ lit ''\"1+1\"'' @ [43, 39, 41, 39] @ lit '')'' \<and>
   eval_code json_dumps (lit '' '') = lit ''return eval('' @ [39, 39] @ lit '')''"
  using Context_eval_program[where source = "lit ''1+1''" and d = json_dumps]
        Context_eval_program[where source = "lit '' ''" and d = json_dumps]
  by (simp add: lit_def isspace_def dumps_eval)

theorem Context_eval_program_counterexample:
  "eval_code json_dumps (lit ''1+1'') \<noteq> lit ''return eval('' @ json_dumps (lit ''1+1'') @ lit '')''"
  by (simp add: eval_code_def eval_data_def strip_def lit_def isspace_def dumps_eval)

section \<open>The binary locator: proofs\<close>

lemma find_append_split:
  "find P (xs @ ys) = (case find P xs of None \<Rightarrow> find P ys | Some x \<Rightarrow> Some x)"
  by (induction xs) auto

lemma find_in_dir_first:
  "stat_fails_quietly sys (map (\<lambda>ext. path_join sys dir (prog @ ext)) exts) \<Longrightarrow>
   find_in_dir sys prog dir exts
     = Inr (find (executable_file sys) (map (\<lambda>ext. path_join sys dir (prog @ ext)) exts))"
  by (induction exts)
     (auto simp: stat_fails_quietly_def executable_file_def Let_def split: sum.splits)

lemma find_in_dirs_first:
  "stat_fails_quietly sys (candidates sys prog pathext dirs) \<Longrightarrow>
   find_in_dirs sys prog pathext dirs
     = Inr (find (executable_file sys) (candidates sys prog pathext dirs))"
proof (induction dirs)
  case Nil
  then show ?case by (simp add: candidates_def)
next
  case (Cons dir dirs)
  from Cons.prems
  have q1: "stat_fails_quietly sys (map (\<lambda>ext. path_join sys dir (prog @ ext)) pathext)"
    and q2: "stat_fails_quietly sys (candidates sys prog pathext dirs)"
    by (simp_all add: stat_fails_quietly_def candidates_def)
  show ?case
    using find_in_dir_first[OF q1] Cons.IH[OF q2]
    by (simp add: candidates_def find_append_split split: option.splits)
qed

lemma find_executable_first:
  "stat_fails_quietly sys (candidates sys prog pathext (search_path sys)) \<Longrightarrow>
   find_executable sys prog pathext
     = Inr (find (executable_file sys) (candidates sys prog pathext (search_path sys)))"
  using find_in_dirs_first[of sys prog pathext "search_path sys"]
  by (simp add: find_executable_def search_path_def)

text \<open>
  C8. Where \<open>os.stat\<close> fails only with \<open>os.error\<close> on the file names tried,
  \<open>_find_executable\<close> raises nothing and returns the first file name, in the order
  directory by directory and within a directory suffix by suffix, that is a regular file
  with an executable bit (\<open>None\<close> when there is none); and \<open>_which\<close> searches for the
  first token of the command only and returns the path found followed by the other
  tokens unchanged.
\<close>

theorem which_first_match:
  assumes "stat_fails_quietly sys (candidates sys prog pathext (search_path sys))"
      and "stat_fails_quietly sys (candidates sys name (suffixes sys) (search_path sys))"
  shows "find_executable sys prog pathext
           = Inr (find (executable_file sys) (candidates sys prog pathext (search_path sys))) \<and>
         which sys (CmdList (name # args))
           = Inr (case find (executable_file sys)
                         (candidates sys name (suffixes sys) (search_path sys)) of
                    None \<Rightarrow> None
                  | Some path \<Rightarrow> if path = [] then None else Some (path # args))"
proof
  show "find_executable sys prog pathext
           = Inr (find (executable_file sys) (candidates sys prog pathext (search_path sys)))"
    using assms(1) by (rule find_executable_first)
next
  have "find_executable sys name (suffixes sys)
          = Inr (find (executable_file sys) (candidates sys name (suffixes sys) (search_path sys)))"
    using assms(2) by (rule find_executable_first)
  then show "which sys (CmdList (name # args))
           = Inr (case find (executable_file sys)
                         (candidates sys name (suffixes sys) (search_path sys)) of
                    None \<Rightarrow> None
                  | Some path \<Rightarrow> if path = [] then None else Some (path # args))"
    by (auto simp: which_def suffixes_def split: option.splits)
qed

lemmas sample_eval = sample_system_def search_path_def suffixes_def candidates_def
  stat_fails_quietly_def executable_file_def environ_get_def posix_join_def startswith_def
  S_ISREG_def S_IMODE_def lit_def

theorem which_first_match_witness:
  "stat_fails_quietly sample_system
     (candidates sample_system (lit ''node'') [[]] (search_path sample_system)) \<and>
   stat_fails_quietly sample_system
     (candidates sample_system (lit ''js'') (suffixes sample_system) (search_path sample_system)) \<and>
   candidates sample_system (lit ''node'') [[]] (search_path sample_system)
     = [lit ''/usr/bin/node'', lit ''/bin/node''] \<and>
   find_executable sample_system (lit ''node'') [[]] = Inr (Some (lit ''/bin/node'')) \<and>
   which sample_system (CmdList [lit ''js'', lit ''-f'']) = Inr (Some [lit ''/usr/bin/js'', lit ''-f''])"
  using which_first_match[of sample_system "lit ''node''" "[[]]" "lit ''js''" "[lit ''-f'']"]
  by (simp add: sample_eval)

section \<open>The selector: proofs\<close>

lemma is_available_result: "fst (is_available sys a h) = available sys (obj h a)"
  by (auto simp: is_available_def binary_def available_def
           split: runtime.splits option.splits sum.splits)

lemma is_available_keeps:
  "available sys (obj (snd (is_available sys a h)) b) = available sys (obj h b)"
  by (auto simp: is_available_def binary_def available_def
           split: runtime.splits option.splits sum.splits)

lemma is_available_name:
  "name_of (obj (snd (is_available sys a h)) b) = name_of (obj h b)"
  by (auto simp: is_available_def binary_def split: runtime.splits option.splits sum.splits)

lemma first_available_result:
  "fst (first_available sys as h) =
     (case find (\<lambda>a. available sys (obj h a) \<noteq> Inr False) as of
        None \<Rightarrow> Inr None
      | Some a \<Rightarrow> (case available sys (obj h a) of Inl e \<Rightarrow> Inl e | Inr ok \<Rightarrow> Inr (Some a)))"
proof (induction as arbitrary: h)
  case Nil
  show ?case by simp
next
  case (Cons a as)
  obtain r h' where p: "is_available sys a h = (r, h')" by (cases "is_available sys a h")
  have r: "available sys (obj h a) = r" using is_available_result[of sys a h] p by simp
  have k: "\<And>b. available sys (obj h' b) = available sys (obj h b)"
    using is_available_keeps[of sys a h] p by simp
  show ?case
  proof (cases r)
    case (Inl e)
    with p r show ?thesis by simp
  next
    case (Inr ok)
    show ?thesis
    proof (cases ok)
      case True
      with p r Inr show ?thesis by simp
    next
      case False
      with p r Inr Cons.IH[of h'] show ?thesis by (simp add: k split: option.splits)
    qed
  qed
qed

lemma find_probes:
  "list_all (\<lambda>a. \<not> isl (available sys (obj h a))) as \<Longrightarrow>
   find (\<lambda>a. available sys (obj h a) \<noteq> Inr False) as = find (\<lambda>a. available sys (obj h a) = Inr True) as"
proof (induction as)
  case Nil
  show ?case by simp
next
  case (Cons a as)
  then show ?case by (cases "available sys (obj h a)") auto
qed

lemma get_named_result:
  "fst (get_named sys reg name h) =
     (case runtimes reg name of
        None \<Rightarrow> Inl (RuntimeUnavailable (Some (name @ lit '' runtime is not defined'')))
      | Some a \<Rightarrow>
          (case available sys (obj h a) of
             Inl e \<Rightarrow> Inl e
           | Inr ok \<Rightarrow>
               if ok then Inr a
               else Inl (RuntimeUnavailable
                           (Some (name_of (obj h a) @ lit '' runtime is not available on this system'')))))"
proof (cases "runtimes reg name")
  case None
  then show ?thesis by (simp add: get_named_def)
next
  case (Some a)
  obtain r h' where p: "is_available sys a h = (r, h')" by (cases "is_available sys a h")
  have r: "available sys (obj h a) = r" using is_available_result[of sys a h] p by simp
  have n: "name_of (obj h' a) = name_of (obj h a)"
    using is_available_name[of sys a h a] p by simp
  show ?thesis using Some p r n by (simp add: get_named_def split: sum.splits)
qed

lemma auto_detect_named:
  assumes "environ sys (lit ''EXECJS_RUNTIME'') = Some name" "name \<noteq> []"
  shows "fst (auto_detect sys reg h) = fst (get_named sys reg name h)"
proof -
  obtain r h' where p: "get_named sys reg name h = (r, h')" by (cases "get_named sys reg name h")
  show ?thesis
    using assms p by (cases r) (simp_all add: auto_detect_def get_from_environment_def)
qed

lemma auto_detect_search:
  assumes "environ sys (lit ''EXECJS_RUNTIME'') = None \<or> environ sys (lit ''EXECJS_RUNTIME'') = Some []"
  shows "fst (auto_detect sys reg h) =
     (case fst (first_available sys (map snd reg) h) of
        Inl e \<Rightarrow> Inl e
      | Inr None \<Rightarrow> Inl (RuntimeUnavailable (Some (lit ''Could not find a JavaScript runtime.'')))
      | Inr (Some a) \<Rightarrow> Inr a)"
proof -
  obtain r h' where p: "first_available sys (map snd reg) h = (r, h')"
    by (cases "first_available sys (map snd reg) h")
  have g: "get_from_environment sys reg h = (Inr None, h)"
    using assms by (auto simp: get_from_environment_def)
  show ?thesis
    using p g by (simp add: auto_detect_def split: sum.splits option.splits)
qed

text \<open>
  C4. \<open>get()\<close> without a name. When \<open>EXECJS_RUNTIME\<close> is unset or empty and
  \<open>is_available()\<close> of every registered runtime returns a truth value, the result is the
  first runtime in the registry's order whose \<open>is_available()\<close> is true, and
  \<open>RuntimeUnavailable\<close> is raised when there is none. When the variable holds a name: a
  registered, available runtime of that name is returned; a name that is not registered
  and a runtime that is not available raise \<open>RuntimeUnavailable\<close>, whatever the other
  runtimes of the registry are.
\<close>

theorem get_auto_detect:
  "((environ sys (lit ''EXECJS_RUNTIME'') = None \<or> environ sys (lit ''EXECJS_RUNTIME'') = Some [])
      \<and> probes_return sys reg h \<longrightarrow>
    fst (get sys reg None h) =
      (case find (\<lambda>a. fst (is_available sys a h) = Inr True) (map snd reg) of
         Some a \<Rightarrow> Inr a
       | None \<Rightarrow> Inl (RuntimeUnavailable (Some (lit ''Could not find a JavaScript runtime.''))))) \<and>
   (environ sys (lit ''EXECJS_RUNTIME'') = Some name \<and> name \<noteq> [] \<longrightarrow>
      (runtimes reg name = Some a \<and> fst (is_available sys a h) = Inr True \<longrightarrow>
         fst (get sys reg None h) = Inr a) \<and>
      (runtimes reg name = None \<longrightarrow>
         fst (get sys reg None h)
           = Inl (RuntimeUnavailable (Some (name @ lit '' runtime is not defined'')))) \<and>
      (runtimes reg name = Some a \<and> fst (is_available sys a h) = Inr False \<longrightarrow>
         fst (get sys reg None h)
           = Inl (RuntimeUnavailable
                    (Some (name_of (obj h a) @ lit '' runtime is not available on this system'')))))"
proof (intro conjI impI)
  assume a: "(environ sys (lit ''EXECJS_RUNTIME'') = None \<or> environ sys (lit ''EXECJS_RUNTIME'') = Some [])
      \<and> probes_return sys reg h"
  then have "list_all (\<lambda>a. \<not> isl (available sys (obj h a))) (map snd reg)"
    by (simp add: probes_return_def is_available_result)
  then have f: "find (\<lambda>a. available sys (obj h a) \<noteq> Inr False) (map snd reg)
      = find (\<lambda>a. available sys (obj h a) = Inr True) (map snd reg)"
    by (rule find_probes)
  show "fst (get sys reg None h) =
      (case find (\<lambda>a. fst (is_available sys a h) = Inr True) (map snd reg) of
         Some a \<Rightarrow> Inr a
       | None \<Rightarrow> Inl (RuntimeUnavailable (Some (lit ''Could not find a JavaScript runtime.''))))"
    using a auto_detect_search[of sys reg h]
    by (auto simp: get_def first_available_result f is_available_result
             split: option.splits dest: find_Some_iff[THEN iffD1])
next
  assume e: "environ sys (lit ''EXECJS_RUNTIME'') = Some name \<and> name \<noteq> []"
  assume "runtimes reg name = Some a \<and> fst (is_available sys a h) = Inr True"
  then show "fst (get sys reg None h) = Inr a"
    using e auto_detect_named[of sys name reg h]
    by (simp add: get_def get_named_result is_available_result)
next
  assume e: "environ sys (lit ''EXECJS_RUNTIME'') = Some name \<and> name \<noteq> []"
  assume "runtimes reg name = None"
  then show "fst (get sys reg None h)
           = Inl (RuntimeUnavailable (Some (name @ lit '' runtime is not defined'')))"
    using e auto_detect_named[of sys name reg h] by (simp add: get_def get_named_result)
next
  assume e: "environ sys (lit ''EXECJS_RUNTIME'') = Some name \<and> name \<noteq> []"
  assume "runtimes reg name = Some a \<and> fst (is_available sys a h) = Inr False"
  then show "fst (get sys reg None h)
           = Inl (RuntimeUnavailable
                    (Some (name_of (obj h a) @ lit '' runtime is not available on this system'')))"
    using e auto_detect_named[of sys name reg h]
    by (simp add: get_def get_named_result is_available_result)
qed

text \<open>
  C5. \<open>get(name)\<close> for a name that is not registered raises \<open>RuntimeUnavailable\<close> with
  the message \<open>name + " runtime is not defined"\<close>; for a registered runtime whose
  \<open>is_available()\<close> is false it raises \<open>RuntimeUnavailable\<close> with the message that
  begins with the runtime's \<open>name\<close> property.
\<close>

theorem get_unavailable:
  "(runtimes reg unknown = None \<longrightarrow>
      fst (get sys reg (Some unknown) h)
        = Inl (RuntimeUnavailable (Some (unknown @ lit '' runtime is not defined'')))) \<and>
   (runtimes reg name = Some a \<and> fst (is_available sys a h) = Inr False \<longrightarrow>
      fst (get sys reg (Some name) h)
        = Inl (RuntimeUnavailable
                 (Some (name_of (obj h a) @ lit '' runtime is not available on this system''))))"
  by (simp add: get_def get_named_result is_available_result)

lemmas select_eval = get_def auto_detect_def get_from_environment_def get_named_def
  is_available_def binary_def which_def find_executable_def runtimes_def
  sample_heap_def sample_registry_def ExternalRuntime_init_def sample_system_def
  environ_get_def posix_join_def startswith_def S_ISREG_def S_IMODE_def lit_def

theorem get_auto_detect_witness:
  "probes_return sample_system sample_registry sample_heap \<and>
   fst (get sample_system sample_registry None sample_heap) = Inr 2 \<and>
   fst (get sample_system (take 2 sample_registry) None sample_heap)
     = Inl (RuntimeUnavailable (Some (lit ''Could not find a JavaScript runtime.''))) \<and>
   fst (get (sample_system\<lparr>environ := [lit ''EXECJS_RUNTIME'' \<mapsto> lit ''Node'', lit ''PATH'' \<mapsto> lit ''/bin'']\<rparr>)
          sample_registry None sample_heap) = Inr 2 \<and>
   fst (get (sample_system\<lparr>environ := [lit ''EXECJS_RUNTIME'' \<mapsto> lit ''Zzz'', lit ''PATH'' \<mapsto> lit ''/bin'']\<rparr>)
          sample_registry None sample_heap)
     = Inl (RuntimeUnavailable (Some (lit ''Zzz runtime is not defined''))) \<and>
   fst (get (sample_system\<lparr>environ := [lit ''EXECJS_RUNTIME'' \<mapsto> lit ''PhantomJS'', lit ''PATH'' \<mapsto> lit ''/bin'']\<rparr>)
          sample_registry None sample_heap)
     = Inl (RuntimeUnavailable (Some (lit ''PhantomJS runtime is not available on this system'')))"
  using get_auto_detect[of sample_system sample_registry sample_heap]
        get_auto_detect[of sample_system "take 2 sample_registry" sample_heap]
        get_auto_detect[of "sample_system\<lparr>environ := [lit ''EXECJS_RUNTIME'' \<mapsto> lit ''Node'', lit ''PATH'' \<mapsto> lit ''/bin'']\<rparr>"
           sample_registry sample_heap "lit ''Node''" 2]
        get_auto_detect[of "sample_system\<lparr>environ := [lit ''EXECJS_RUNTIME'' \<mapsto> lit ''Zzz'', lit ''PATH'' \<mapsto> lit ''/bin'']\<rparr>"
           sample_registry sample_heap "lit ''Zzz''"]
        get_auto_detect[of "sample_system\<lparr>environ := [lit ''EXECJS_RUNTIME'' \<mapsto> lit ''PhantomJS'', lit ''PATH'' \<mapsto> lit ''/bin'']\<rparr>"
           sample_registry sample_heap "lit ''PhantomJS''" 1]
  by (simp add: select_eval probes_return_def)

theorem get_unavailable_witness:
  "runtimes sample_registry (lit ''Zzz'') = None \<and>
   fst (get sample_system sample_registry (Some (lit ''Zzz'')) sample_heap)
     = Inl (RuntimeUnavailable (Some (lit ''Zzz runtime is not defined''))) \<and>
   runtimes sample_registry (lit ''PhantomJS'') = Some 1 \<and>
   fst (is_available sample_system 1 sample_heap) = Inr False \<and>
   fst (get sample_system sample_registry (Some (lit ''PhantomJS'')) sample_heap)
     = Inl (RuntimeUnavailable (Some (lit ''PhantomJS runtime is not available on this system'')))"
  using get_unavailable[of sample_registry "lit ''Zzz''" sample_system sample_heap "lit ''PhantomJS''" 1]
  by (simp add: select_eval)

section \<open>Execution: proofs\<close>

lemma os_remove_gone: "filename \<notin> dom (files (snd (os_remove filename w)))"
  by (auto simp: os_remove_def)

lemma Context_exec_world:
  assumes "mkstemp sys (files w) = Inr filename"
  shows "snd (Context_exec sys ctx source w) =
           snd (os_remove filename
                  (snd (exec_try sys ctx
                          (if ctx_source ctx \<noteq> [] then ctx_source ctx @ [10] @ source else source)
                          filename (w\<lparr>files := (files w)(filename \<mapsto> [])\<rparr>))))"
  using assms
  by (simp add: Context_exec_def Let_def split: prod.splits sum.splits runtime.splits)

text \<open>
  C9. Whatever \<open>Context.exec_\<close> returns or raises, the file that \<open>mkstemp\<close> created for
  the call does not exist afterwards; when \<open>mkstemp\<close> itself raises, no file has been
  created and the files are as before.
\<close>

theorem Context_exec_removes_file:
  "(mkstemp sys (files w) = Inr filename \<longrightarrow>
      filename \<notin> dom (files (snd (Context_exec sys ctx source w)))) \<and>
   (mkstemp sys (files w) = Inl e \<longrightarrow> snd (Context_exec sys ctx source w) = w)"
proof (intro conjI impI)
  assume "mkstemp sys (files w) = Inr filename"
  then show "filename \<notin> dom (files (snd (Context_exec sys ctx source w)))"
    by (simp only: Context_exec_world os_remove_gone not_False_eq_True)
next
  assume "mkstemp sys (files w) = Inl e"
  then show "snd (Context_exec sys ctx source w) = w"
    by (simp add: Context_exec_def)
qed

lemma length_split: "length (split sep s) = Suc (length (filter (\<lambda>c. c = sep) s))"
  by (induction s) (auto split: list.splits)

lemma split_two_iff: "2 \<le> length (split sep s) \<longleftrightarrow> sep \<in> set s"
proof -
  have "filter (\<lambda>c. c = sep) s \<noteq> [] \<longleftrightarrow> sep \<in> set s"
    by (auto simp: filter_empty_conv)
  then show ?thesis by (auto simp: length_split Suc_le_eq numeral_2_eq_2)
qed

lemma getitem_minus_2:
  "getitem xs (- 2) = (if 2 \<le> length xs then Inr (last (butlast xs)) else Inl IndexError)"
proof (cases "2 \<le> length xs")
  case True
  then have n: "butlast xs \<noteq> []" by (cases xs) auto
  have "last (butlast xs) = butlast xs ! (length (butlast xs) - 1)"
    using n by (rule last_conv_nth)
  also have "\<dots> = xs ! (length xs - 2)"
    using True by (simp add: nth_butlast numeral_2_eq_2)
  finally have l: "last (butlast xs) = xs ! (length xs - 2)" .
  have "nat (int (length xs) + (- 2)) = length xs - 2" by simp
  with True l show ?thesis by (simp add: getitem_def)
next
  case False
  then show ?thesis by (auto simp: getitem_def)
qed

lemma exec_output_line:
  "exec_output sys encoding output =
     (case decode sys encoding output of
        Inl e \<Rightarrow> Inl e
      | Inr decoded \<Rightarrow>
          if 10 \<in> set (replace [13] [10] (replace [13, 10] [10] decoded))
          then extract_result (loads sys)
                 (last (butlast (split 10 (replace [13] [10] (replace [13, 10] [10] decoded)))))
          else Inl IndexError)"
  by (simp add: exec_output_def getitem_minus_2 split_two_iff split: sum.splits)

lemma replace_cr: "replace [13] [10] s = map (\<lambda>c. if c = 13 then 10 else c) s"
proof (induction s)
  case Nil
  show ?case by (subst replace.simps) simp
next
  case (Cons c cs)
  then show ?case by (subst replace.simps) (simp add: startswith_def)
qed

lemma replace_crlf_Nil: "replace [13, 10] [10] [] = []"
  by (subst replace.simps) simp

lemma replace_crlf_hit: "replace [13, 10] [10] (13 # 10 # cs) = 10 # replace [13, 10] [10] cs"
  by (subst replace.simps) (simp add: startswith_def)

lemma replace_crlf_miss:
  "\<not> startswith (c # cs) [13, 10] \<Longrightarrow>
     replace [13, 10] [10] (c # cs) = c # replace [13, 10] [10] cs"
  by (subst replace.simps) simp

text \<open>The two \<open>replace\<close> calls of \<open>exec_\<close> do what the specification calls normalising
  the line ends.\<close>

lemma replace_line_ends: "replace [13] [10] (replace [13, 10] [10] s) = line_ends s"
proof (induction s rule: line_ends.induct)
  case 1
  show ?case by (simp add: replace_crlf_Nil replace_cr)
next
  case (2 c)
  have "replace [13, 10] [10] [c] = [c]"
    by (simp add: replace_crlf_miss startswith_def replace_crlf_Nil)
  then show ?case by (simp add: replace_cr)
next
  case (3 c d cs)
  show ?case
  proof (cases "c = 13 \<and> d = 10")
    case True
    with 3 show ?thesis by (simp add: replace_crlf_hit replace_cr)
  next
    case False
    then have m: "replace [13, 10] [10] (c # d # cs) = c # replace [13, 10] [10] (d # cs)"
      by (intro replace_crlf_miss) (auto simp: startswith_def)
    from False 3 show ?thesis by (auto simp: m replace_cr)
  qed
qed

lemma line_ends_no_cr: "13 \<notin> set (line_ends s)"
  by (induction s rule: line_ends.induct) auto

lemma line_ends_has_lf: "10 \<in> set (line_ends s) \<longleftrightarrow> 10 \<in> set s \<or> 13 \<in> set s"
  by (induction s rule: line_ends.induct) auto

lemma binary_keeps_encoding:
  assumes "obj h a = ExternalRuntime rt"
  shows "\<exists>rt'. obj (snd (binary sys a h)) a = ExternalRuntime rt' \<and> rt_encoding rt' = rt_encoding rt"
  using assms by (auto simp: binary_def split: option.splits sum.splits)

lemma execfile_keeps_encoding:
  assumes "obj (objects w) a = ExternalRuntime rt"
  shows "\<exists>rt'. obj (objects (snd (execfile sys a filename w))) a = ExternalRuntime rt'
               \<and> rt_encoding rt' = rt_encoding rt"
proof -
  obtain r h where b: "binary sys a (objects w) = (r, h)" by (cases "binary sys a (objects w)")
  from binary_keeps_encoding[OF assms, of sys] b
  obtain rt' where k: "obj h a = ExternalRuntime rt'" "rt_encoding rt' = rt_encoding rt" by auto
  show ?thesis
    using b k by (auto simp: execfile_def split: sum.splits option.splits prod.splits)
qed

lemma exec_try_keeps_encoding:
  assumes "obj (objects w) (ctx_runtime ctx) = ExternalRuntime rt"
  shows "\<exists>rt'. obj (objects (snd (exec_try sys ctx source filename w))) (ctx_runtime ctx)
                  = ExternalRuntime rt' \<and> rt_encoding rt' = rt_encoding rt"
proof (cases "encode sys (rt_encoding rt) (Context_compile sys (rt_runner_source rt) source)")
  case (Inl e)
  with assms show ?thesis by (simp add: exec_try_def)
next
  case (Inr data)
  have "obj (objects (w\<lparr>files := (files w)(filename \<mapsto> data)\<rparr>)) (ctx_runtime ctx) = ExternalRuntime rt"
    using assms by simp
  from execfile_keeps_encoding[OF this, of sys filename]
  show ?thesis using assms Inr by (simp add: exec_try_def)
qed

text \<open>
  C10. When the \<open>try\<close> block of \<open>Context.exec_\<close> has produced the engine's output, the
  file is still there to be removed and the output decodes to a text, then: if the text
  contains a line end (a line feed or a carriage return), \<open>exec_\<close> returns what
  \<open>_extract_result\<close> returns on the second-to-last piece of the text with its line
  ends normalised (every carriage return with a following line feed, and every other
  carriage return, turned into one line feed; nothing else changed) and split at the
  line feeds; if the text contains no line end, \<open>exec_\<close> raises \<open>IndexError\<close>. The
  normalised text is what the two \<open>replace\<close> calls compute, it contains no carriage
  return, and it contains a line feed exactly when the text contains a line end.
\<close>

theorem Context_exec_second_to_last_line:
  assumes "mkstemp sys (files w) = Inr filename"
      and "obj (objects w) (ctx_runtime ctx) = ExternalRuntime rt"
      and "exec_try sys ctx
             (if ctx_source ctx \<noteq> [] then ctx_source ctx @ [10] @ source else source)
             filename (w\<lparr>files := (files w)(filename \<mapsto> [])\<rparr>) = (Inr out, w1)"
      and "filename \<in> dom (files w1)"
      and "decode sys (rt_encoding rt) out = Inr decoded"
  shows "fst (Context_exec sys ctx source w) =
           (if 10 \<in> set decoded \<or> 13 \<in> set decoded
            then extract_result (loads sys) (last (butlast (split 10 (line_ends decoded))))
            else Inl IndexError) \<and>
         replace [13] [10] (replace [13, 10] [10] decoded) = line_ends decoded \<and>
         13 \<notin> set (line_ends decoded) \<and>
         (10 \<in> set (line_ends decoded) \<longleftrightarrow> 10 \<in> set decoded \<or> 13 \<in> set decoded)"
proof -
  have "obj (objects (w\<lparr>files := (files w)(filename \<mapsto> [])\<rparr>)) (ctx_runtime ctx) = ExternalRuntime rt"
    using assms(2) by simp
  from exec_try_keeps_encoding[OF this, of sys _ filename] assms(3)
  obtain rt' where k: "obj (objects w1) (ctx_runtime ctx) = ExternalRuntime rt'"
      "rt_encoding rt' = rt_encoding rt"
    by (metis snd_conv)
  have r: "os_remove filename w1 = (Inr (), w1\<lparr>files := (files w1)(filename := None)\<rparr>)"
    using assms(4) by (simp add: os_remove_def)
  have "fst (Context_exec sys ctx source w) = exec_output sys (rt_encoding rt) out"
    using assms(1,3) r k by (simp add: Context_exec_def Let_def)
  then have "fst (Context_exec sys ctx source w) =
           (if 10 \<in> set decoded \<or> 13 \<in> set decoded
            then extract_result (loads sys) (last (butlast (split 10 (line_ends decoded))))
            else Inl IndexError)"
    using assms(5) by (simp add: exec_output_line replace_line_ends line_ends_has_lf)
  then show ?thesis
    by (simp add: replace_line_ends line_ends_no_cr line_ends_has_lf)
qed

lemmas exec_eval = Context_exec_def exec_try_def execfile_def binary_def which_def
  find_executable_def Context_compile_def os_remove_def exec_output_def getitem_def
  extract_result_def unpack2_def loads_envelopes_def ascii_codec_def replace.simps
  sample_context_def sample_world_def sample_heap_def ExternalRuntime_init_def
  sample_system_def environ_get_def posix_join_def startswith_def S_ISREG_def S_IMODE_def
  lit_def Let_def

theorem Context_exec_removes_file_witness:
  "mkstemp sample_system (files sample_world) = Inr (lit ''/tmp/execjs0.js'') \<and>
   fst (Context_exec sample_system sample_context (lit ''return 1+2'') sample_world) = Inr (PInt 3) \<and>
   files (snd (Context_exec sample_system sample_context (lit ''return 1+2'') sample_world))
     (lit ''/tmp/execjs0.js'') = None \<and>
   fst (Context_exec (sample_system\<lparr>spawn := (\<lambda>cmd fs. (Inr (1, lit ''boom''), fs))\<rparr>)
          sample_context (lit ''return 1+2'') sample_world)
     = Inl (RuntimeError (PBytes (lit ''boom''))) \<and>
   files (snd (Context_exec (sample_system\<lparr>spawn := (\<lambda>cmd fs. (Inr (1, lit ''boom''), fs))\<rparr>)
                 sample_context (lit ''return 1+2'') sample_world))
     (lit ''/tmp/execjs0.js'') = None \<and>
   fst (Context_exec (sample_system\<lparr>spawn := (\<lambda>cmd fs. (Inl OSError, fs))\<rparr>)
          sample_context (lit ''return 1+2'') sample_world) = Inl OSError \<and>
   files (snd (Context_exec (sample_system\<lparr>spawn := (\<lambda>cmd fs. (Inl OSError, fs))\<rparr>)
                 sample_context (lit ''return 1+2'') sample_world))
     (lit ''/tmp/execjs0.js'') = None \<and>
   snd (Context_exec (sample_system\<lparr>mkstemp := (\<lambda>fs. Inl OSError)\<rparr>)
          sample_context (lit ''return 1+2'') sample_world) = sample_world"
  using Context_exec_removes_file[of sample_system sample_world "lit ''/tmp/execjs0.js''"
          sample_context "lit ''return 1+2''"]
        Context_exec_removes_file[of "sample_system\<lparr>mkstemp := (\<lambda>fs. Inl OSError)\<rparr>" sample_world _
          sample_context "lit ''return 1+2''" OSError]
  by (simp add: exec_eval)

theorem Context_exec_second_to_last_line_witness:
  "fst (Context_exec (sample_system\<lparr>spawn := (\<lambda>cmd fs. (Inr (0, [13, 10] @ lit ''[\"ok\", 3]'' @ [13, 10]), fs))\<rparr>)
          sample_context (lit ''return 1+2'') sample_world) = Inr (PInt 3) \<and>
   line_ends ([13, 10] @ lit ''[\"ok\", 3]'' @ [13, 10]) = [10] @ lit ''[\"ok\", 3]'' @ [10] \<and>
   fst (Context_exec (sample_system\<lparr>spawn := (\<lambda>cmd fs. (Inr (0, lit ''[\"ok\"]'' @ [13] @ lit ''x''), fs))\<rparr>)
          sample_context (lit ''return 1+2'') sample_world) = Inr PNone \<and>
   line_ends (lit ''[\"ok\"]'' @ [13] @ lit ''x'') = lit ''[\"ok\"]'' @ [10] @ lit ''x'' \<and>
   fst (Context_exec (sample_system\<lparr>spawn := (\<lambda>cmd fs. (Inr (0, lit ''[\"ok\", 3]''), fs))\<rparr>)
          sample_context (lit ''return 1+2'') sample_world) = Inl IndexError"
  using Context_exec_second_to_last_line[where sys = "sample_system\<lparr>spawn := (\<lambda>cmd fs. (Inr (0, [13, 10] @ lit ''[\"ok\", 3]'' @ [13, 10]), fs))\<rparr>" and w = sample_world
          and ctx = sample_context and source = "lit ''return 1+2''"
          and filename = "lit ''/tmp/execjs0.js''"
          and rt = "ExternalRuntime_init (lit ''Node.js (V8)'') (CmdStr (lit ''node'')) [] (lit ''UTF-8'')"
          and out = "[13, 10] @ lit ''[\"ok\", 3]'' @ [13, 10]"
          and decoded = "[13, 10] @ lit ''[\"ok\", 3]'' @ [13, 10]"
          and ?w1.0 = "snd (exec_try (sample_system\<lparr>spawn := (\<lambda>cmd fs. (Inr (0, [13, 10] @ lit ''[\"ok\", 3]'' @ [13, 10]), fs))\<rparr>) sample_context (lit ''return 1+2'')
                              (lit ''/tmp/execjs0.js'')
                              (sample_world\<lparr>files := (files sample_world)(lit ''/tmp/execjs0.js'' \<mapsto> [])\<rparr>))"]
        Context_exec_second_to_last_line[where sys = "sample_system\<lparr>spawn := (\<lambda>cmd fs. (Inr (0, lit ''[\"ok\"]'' @ [13] @ lit ''x''), fs))\<rparr>" and w = sample_world
          and ctx = sample_context and source = "lit ''return 1+2''"
          and filename = "lit ''/tmp/execjs0.js''"
          and rt = "ExternalRuntime_init (lit ''Node.js (V8)'') (CmdStr (lit ''node'')) [] (lit ''UTF-8'')"
          and out = "lit ''[\"ok\"]'' @ [13] @ lit ''x''"
          and decoded = "lit ''[\"ok\"]'' @ [13] @ lit ''x''"
          and ?w1.0 = "snd (exec_try (sample_system\<lparr>spawn := (\<lambda>cmd fs. (Inr (0, lit ''[\"ok\"]'' @ [13] @ lit ''x''), fs))\<rparr>) sample_context (lit ''return 1+2'')
                              (lit ''/tmp/execjs0.js'')
                              (sample_world\<lparr>files := (files sample_world)(lit ''/tmp/execjs0.js'' \<mapsto> [])\<rparr>))"]
        Context_exec_second_to_last_line[where sys = "sample_system\<lparr>spawn := (\<lambda>cmd fs. (Inr (0, lit ''[\"ok\", 3]''), fs))\<rparr>" and w = sample_world
          and ctx = sample_context and source = "lit ''return 1+2''"
          and filename = "lit ''/tmp/execjs0.js''"
          and rt = "ExternalRuntime_init (lit ''Node.js (V8)'') (CmdStr (lit ''node'')) [] (lit ''UTF-8'')"
          and out = "lit ''[\"ok\", 3]''"
          and decoded = "lit ''[\"ok\", 3]''"
          and ?w1.0 = "snd (exec_try (sample_system\<lparr>spawn := (\<lambda>cmd fs. (Inr (0, lit ''[\"ok\", 3]''), fs))\<rparr>) sample_context (lit ''return 1+2'')
                              (lit ''/tmp/execjs0.js'')
                              (sample_world\<lparr>files := (files sample_world)(lit ''/tmp/execjs0.js'' \<mapsto> [])\<rparr>))"]
  by (simp add: exec_eval)

section \<open>Building the registry: proofs\<close>

lemma map_of_od_set: "map_of (od_set reg name a) = (map_of reg)(name \<mapsto> a)"
  by (induction reg) (auto simp: fun_eq_iff)

lemma map_of_fold_od_set:
  "map_of (fold (\<lambda>name acc. od_set acc name a) names reg) n
     = (if n \<in> set names then Some a else map_of reg n)"
  by (induction names arbitrary: reg) (auto simp: map_of_od_set)

lemma construct_uncached: "construct sys clsname cmd kw = Inr r \<Longrightarrow> uncached r = r"
  by (auto simp: construct_def ExternalRuntime_init_def split: if_splits option.splits)

lemma is_available_old:
  "obj (snd (is_available sys a h)) b = obj h b \<or>
   (b = a \<and> uncached (obj (snd (is_available sys a h)) b) = uncached (obj h b))"
  by (auto simp: is_available_def binary_def split: runtime.splits option.splits sum.splits)

lemma is_available_other: "b \<noteq> a \<Longrightarrow> obj (snd (is_available sys a h)) b = obj h b"
  using is_available_old[of sys a h b] by auto

lemma is_available_uncached:
  "uncached (obj (snd (is_available sys a h)) b) = uncached (obj h b)"
  using is_available_old[of sys a h b] by auto

lemma is_available_fresh: "fresh (snd (is_available sys a h)) = fresh h"
  by (auto simp: is_available_def binary_def split: runtime.splits option.splits sum.splits)

lemma visited_Cons:
  "visited P (x # xs) = (if P x then 1 else Suc (visited P xs))"
  by (auto simp: visited_def split: option.splits)

lemma first_or_last_Cons:
  "first_or_last P (x # xs) = (if P x \<or> xs = [] then x else first_or_last P xs)"
  by (auto simp: first_or_last_def split: option.splits)

text \<open>What one round of the inner loop does: the candidate is constructed, allocated,
  stored under the names of the family, and probed.\<close>

lemma probe_round:
  assumes c: "construct sys cls cmd kw = Inr r"
      and p: "is_available sys (fresh h) (snd (new_object r h)) = (res, h2)"
  shows "available sys r = res"
    and "fresh h2 = Suc (fresh h)"
    and "\<forall>b < fresh h. obj h2 b = obj h b"
    and "uncached (obj h2 (fresh h)) = r"
    and "available sys (obj h2 (fresh h)) = available sys r"
proof -
  let ?h1 = "snd (new_object r h)"
  have o1: "obj ?h1 (fresh h) = r" by (simp add: new_object_def)
  show "available sys r = res"
    using is_available_result[of sys "fresh h" ?h1] p o1 by simp
  show "fresh h2 = Suc (fresh h)"
    using is_available_fresh[of sys "fresh h" ?h1] p by (simp add: new_object_def)
  show "\<forall>b < fresh h. obj h2 b = obj h b"
    using is_available_other[of _ "fresh h" sys ?h1] p by (auto simp: new_object_def)
  show "uncached (obj h2 (fresh h)) = r"
    using is_available_uncached[of sys "fresh h" ?h1 "fresh h"] p o1 construct_uncached[OF c]
    by simp
  show "available sys (obj h2 (fresh h)) = available sys r"
    using is_available_keeps[of sys "fresh h" ?h1 "fresh h"] p o1 by simp
qed

lemma probe_commands_step:
  assumes "construct sys cls cmd kw = Inr r"
      and "is_available sys (fresh h) (snd (new_object r h)) = (res, h2)"
  shows "probe_commands sys cls kw names (cmd # rest) (reg, h) =
           (case res of
              Inl e \<Rightarrow> Inl e
            | Inr ok \<Rightarrow>
                if ok then Inr (fold (\<lambda>name acc. od_set acc name (fresh h)) names reg, h2)
                else probe_commands sys cls kw names rest
                       (fold (\<lambda>name acc. od_set acc name (fresh h)) names reg, h2))"
  using assms by (simp add: new_object_def Let_def split: sum.splits)

lemma probe_commands_result:
  "probe_commands sys cls kw names cmds (reg, h) = Inr (reg', h') \<Longrightarrow>
     fresh h' = fresh h + visited (candidate_available sys cls kw) cmds \<and>
     (\<forall>b < fresh h. obj h' b = obj h b) \<and>
     (\<forall>n. n \<notin> set names \<longrightarrow> map_of reg' n = map_of reg n) \<and>
     (cmds = [] \<longrightarrow> reg' = reg) \<and>
     (cmds \<noteq> [] \<longrightarrow>
        (\<exists>a. fresh h \<le> a \<and> a < fresh h' \<and> (\<forall>n\<in>set names. map_of reg' n = Some a) \<and>
             construct sys cls (first_or_last (candidate_available sys cls kw) cmds) kw
               = Inr (uncached (obj h' a)) \<and>
             available sys (obj h' a)
               = Inr (\<exists>cmd\<in>set cmds. candidate_available sys cls kw cmd)))"
proof (induction cmds arbitrary: reg h)
  case Nil
  then show ?case by (simp add: visited_def)
next
  case (Cons cmd rest)
  let ?P = "candidate_available sys cls kw"
  from Cons.prems obtain r where c: "construct sys cls cmd kw = Inr r"
    by (cases "construct sys cls cmd kw") auto
  let ?a = "fresh h"
  let ?h1 = "snd (new_object r h)"
  let ?reg1 = "fold (\<lambda>name acc. od_set acc name ?a) names reg"
  obtain res h2 where p: "is_available sys ?a ?h1 = (res, h2)" by (cases "is_available sys ?a ?h1")
  note round = probe_round[OF c p]
  note step = probe_commands_step[OF c p, of names rest reg]
  from Cons.prems step obtain ok where ok: "res = Inr ok"
    by (cases res) auto
  have P: "?P cmd \<longleftrightarrow> ok"
    using c round(1) ok by (simp add: candidate_available_def)
  have reg1: "\<And>m. map_of ?reg1 m = (if m \<in> set names then Some ?a else map_of reg m)"
    by (rule map_of_fold_od_set)
  show ?case
  proof (cases ok)
    case True
    with Cons.prems step ok have e: "reg' = ?reg1" "h' = h2" by auto
    have "construct sys cls (first_or_last ?P (cmd # rest)) kw = Inr (uncached (obj h' ?a))"
      using True P c round(4) e by (simp add: first_or_last_Cons)
    moreover have "available sys (obj h' ?a) = Inr (\<exists>x\<in>set (cmd # rest). ?P x)"
      using True P round(1,5) ok e by simp
    moreover have "fresh h' = fresh h + visited ?P (cmd # rest)"
      using True P round(2) e by (simp add: visited_Cons)
    ultimately show ?thesis
      using round(2,3) e reg1 by auto
  next
    case False
    with Cons.prems step ok
    have rec: "probe_commands sys cls kw names rest (?reg1, h2) = Inr (reg', h')"
      by auto
    note ih = Cons.IH[OF rec]
    have v: "fresh h' = fresh h + visited ?P (cmd # rest)"
      using False P round(2) ih by (simp add: visited_Cons)
    have old: "\<forall>b < fresh h. obj h' b = obj h b"
      using round(2,3) ih by auto
    have others: "\<forall>m. m \<notin> set names \<longrightarrow> map_of reg' m = map_of reg m"
      using ih reg1 by auto
    show ?thesis
    proof (cases "rest = []")
      case True
      with rec have e: "reg' = ?reg1" "h' = h2" by auto
      have "construct sys cls (first_or_last ?P (cmd # rest)) kw = Inr (uncached (obj h' ?a))"
        using True c round(4) e by (simp add: first_or_last_Cons)
      moreover have "available sys (obj h' ?a) = Inr (\<exists>x\<in>set (cmd # rest). ?P x)"
        using True False P round(1,5) ok e by simp
      ultimately show ?thesis
        using v old others round(2) e reg1 by auto
    next
      case nonempty: False
      with ih obtain a where a: "fresh h2 \<le> a" "a < fresh h'"
          "\<forall>m\<in>set names. map_of reg' m = Some a"
          "construct sys cls (first_or_last ?P rest) kw = Inr (uncached (obj h' a))"
          "available sys (obj h' a) = Inr (\<exists>x\<in>set rest. ?P x)"
        by auto
      have "construct sys cls (first_or_last ?P (cmd # rest)) kw = Inr (uncached (obj h' a))"
        using nonempty False P a(4) by (simp add: first_or_last_Cons)
      moreover have "available sys (obj h' a) = Inr (\<exists>x\<in>set (cmd # rest). ?P x)"
        using False P a(5) by simp
      moreover have "fresh h \<le> a" using a(1) round(2) by simp
      ultimately show ?thesis
        using v old others a(2,3) by auto
    qed
  qed
qed

lemma setup_family_probe:
  assumes "setup_family sys cfg f (reg, h) = Inr (reg', h')"
  obtains c where "cfg f = Some c"
    and "probe_commands sys (class_name c) (kwargs c) (f # alternate_names c)
           (commands_to_try c) (reg, h) = Inr (reg', h')"
  using assms by (auto simp: setup_family_def split: option.splits if_splits)

lemma setup_family_keeps:
  assumes "setup_family sys cfg f (reg, h) = Inr (reg', h')"
  shows "fresh h' = fresh h + probed sys cfg f"
    and "\<forall>b < fresh h. obj h' b = obj h b"
    and "\<forall>n. n \<notin> set (names_of cfg f) \<longrightarrow> map_of reg' n = map_of reg n"
proof -
  from assms obtain c where c: "cfg f = Some c"
    and p: "probe_commands sys (class_name c) (kwargs c) (f # alternate_names c)
              (commands_to_try c) (reg, h) = Inr (reg', h')"
    by (rule setup_family_probe)
  note r = probe_commands_result[OF p]
  show "fresh h' = fresh h + probed sys cfg f" using r c by (simp add: probed_def)
  show "\<forall>b < fresh h. obj h' b = obj h b" using r by blast
  show "\<forall>n. n \<notin> set (names_of cfg f) \<longrightarrow> map_of reg' n = map_of reg n"
    using r c by (simp add: names_of_def)
qed

lemma setup_loop_keeps:
  "setup_loop sys cfg order (reg, h) = Inr (reg', h') \<Longrightarrow>
     fresh h' = fresh h + sum_list (map (probed sys cfg) order) \<and>
     (\<forall>b < fresh h. obj h' b = obj h b) \<and>
     (\<forall>n. n \<notin> set (concat (map (names_of cfg) order)) \<longrightarrow> map_of reg' n = map_of reg n)"
proof (induction order arbitrary: reg h)
  case Nil
  then show ?case by simp
next
  case (Cons f rest)
  from Cons.prems obtain reg1 h1 where
      s: "setup_family sys cfg f (reg, h) = Inr (reg1, h1)"
    and l: "setup_loop sys cfg rest (reg1, h1) = Inr (reg', h')"
    by (cases "setup_family sys cfg f (reg, h)") auto
  note k = setup_family_keeps[OF s]
  note ih = Cons.IH[OF l]
  have "fresh h' = fresh h + sum_list (map (probed sys cfg) (f # rest))"
    using k(1) ih by simp
  moreover have "\<forall>b < fresh h. obj h' b = obj h b"
    using k(1,2) ih by auto
  moreover have "\<forall>n. n \<notin> set (concat (map (names_of cfg) (f # rest))) \<longrightarrow>
      map_of reg' n = map_of reg n"
    using k(3) ih by auto
  ultimately show ?case by blast
qed

lemma setup_loop_family:
  "setup_loop sys cfg order (reg, h) = Inr (reg', h') \<Longrightarrow>
   distinct (concat (map (names_of cfg) order)) \<Longrightarrow>
   f \<in> set order \<Longrightarrow> cfg f = Some c \<Longrightarrow> commands_to_try c \<noteq> [] \<Longrightarrow>
     \<exists>a. (\<forall>n\<in>set (f # alternate_names c). map_of reg' n = Some a) \<and>
         construct sys (class_name c)
             (first_or_last (candidate_available sys (class_name c) (kwargs c)) (commands_to_try c))
             (kwargs c)
           = Inr (uncached (obj h' a)) \<and>
         available sys (obj h' a)
           = Inr (\<exists>cmd\<in>set (commands_to_try c). candidate_available sys (class_name c) (kwargs c) cmd)"
proof (induction order arbitrary: reg h)
  case Nil
  then show ?case by simp
next
  case (Cons g rest)
  from Cons.prems(1) obtain reg1 h1 where
      s: "setup_family sys cfg g (reg, h) = Inr (reg1, h1)"
    and l: "setup_loop sys cfg rest (reg1, h1) = Inr (reg', h')"
    by (cases "setup_family sys cfg g (reg, h)") auto
  have d: "distinct (concat (map (names_of cfg) rest))"
    using Cons.prems(2) by simp
  show ?case
  proof (cases "f = g")
    case True
    from s True Cons.prems(4)
    have p: "probe_commands sys (class_name c) (kwargs c) (f # alternate_names c)
               (commands_to_try c) (reg, h) = Inr (reg1, h1)"
      by (auto elim: setup_family_probe)
    from probe_commands_result[OF p] Cons.prems(5)
    obtain a where a: "a < fresh h1" "\<forall>n\<in>set (f # alternate_names c). map_of reg1 n = Some a"
        "construct sys (class_name c)
             (first_or_last (candidate_available sys (class_name c) (kwargs c)) (commands_to_try c))
             (kwargs c) = Inr (uncached (obj h1 a))"
        "available sys (obj h1 a)
           = Inr (\<exists>cmd\<in>set (commands_to_try c). candidate_available sys (class_name c) (kwargs c) cmd)"
      by blast
    note k = setup_loop_keeps[OF l]
    have o: "obj h' a = obj h1 a" using k a(1) by blast
    have "set (names_of cfg g) \<inter> set (concat (map (names_of cfg) rest)) = {}"
      using Cons.prems(2) by simp
    then have "\<forall>n\<in>set (f # alternate_names c). n \<notin> set (concat (map (names_of cfg) rest))"
      using True Cons.prems(4) by (auto simp: names_of_def)
    then have m: "\<forall>n\<in>set (f # alternate_names c). map_of reg' n = Some a"
      using k a(2) by (metis (no_types, lifting))
    show ?thesis
      using m a(3,4) o by (intro exI[of _ a]) simp
  next
    case False
    with Cons.prems(3) have "f \<in> set rest" by simp
    from Cons.IH[OF l d this Cons.prems(4,5)] show ?thesis .
  qed
qed

lemma keys_od_set_list:
  "map fst (od_set reg n a) = (if n \<in> set (map fst reg) then map fst reg else map fst reg @ [n])"
proof (induction reg)
  case Nil
  show ?case by simp
next
  case (Cons kv reg)
  obtain k v where kv: "kv = (k, v)" by (cases kv)
  show ?case using Cons.IH kv by (cases "k = n") simp_all
qed

lemma keys_od_set:
  "map fst (od_set reg n a) = (if n \<in> fst ` set reg then map fst reg else map fst reg @ [n])"
  using keys_od_set_list[of reg n a] by simp

lemma keys_fold_old:
  "set names \<subseteq> fst ` set reg \<Longrightarrow>
     map fst (fold (\<lambda>n acc. od_set acc n a) names reg) = map fst reg"
proof (induction names arbitrary: reg)
  case Nil
  show ?case by simp
next
  case (Cons n names)
  have k: "map fst (od_set reg n a) = map fst reg"
    using Cons.prems by (simp add: keys_od_set)
  then have "fst ` set (od_set reg n a) = fst ` set reg"
    by (metis set_map)
  with Cons.prems have "set names \<subseteq> fst ` set (od_set reg n a)" by simp
  from Cons.IH[OF this] k show ?case by simp
qed

lemma keys_fold_new:
  "distinct names \<Longrightarrow> set names \<inter> fst ` set reg = {} \<Longrightarrow>
     map fst (fold (\<lambda>n acc. od_set acc n a) names reg) = map fst reg @ names"
proof (induction names arbitrary: reg)
  case Nil
  show ?case by simp
next
  case (Cons n names)
  have k: "map fst (od_set reg n a) = map fst reg @ [n]"
    using Cons.prems(2) by (simp add: keys_od_set)
  then have "set (map fst (od_set reg n a)) = set (map fst reg @ [n])" by simp
  then have "fst ` set (od_set reg n a) = insert n (fst ` set reg)" by simp
  with Cons.prems have "set names \<inter> fst ` set (od_set reg n a) = {}" by auto
  from Cons.IH[OF _ this] Cons.prems(1) k show ?case by simp
qed

lemma probe_commands_keys_old:
  "probe_commands sys cls kw names cmds (reg, h) = Inr (reg', h') \<Longrightarrow>
   set names \<subseteq> fst ` set reg \<Longrightarrow> map fst reg' = map fst reg"
proof (induction cmds arbitrary: reg h)
  case Nil
  then show ?case by simp
next
  case (Cons cmd rest)
  from Cons.prems(1) obtain r where c: "construct sys cls cmd kw = Inr r"
    by (cases "construct sys cls cmd kw") auto
  let ?reg1 = "fold (\<lambda>name acc. od_set acc name (fresh h)) names reg"
  obtain res h2 where p: "is_available sys (fresh h) (snd (new_object r h)) = (res, h2)"
    by (cases "is_available sys (fresh h) (snd (new_object r h))")
  note step = probe_commands_step[OF c p, of names rest reg]
  have k: "map fst ?reg1 = map fst reg" using Cons.prems(2) by (rule keys_fold_old)
  then have "fst ` set ?reg1 = fst ` set reg" by (metis set_map)
  with Cons.prems(2) have sub: "set names \<subseteq> fst ` set ?reg1" by simp
  from Cons.prems(1) step obtain ok where ok: "res = Inr ok" by (cases res) auto
  show ?case
  proof (cases ok)
    case True
    with Cons.prems(1) step ok have "reg' = ?reg1" by auto
    with k show ?thesis by simp
  next
    case False
    with Cons.prems(1) step ok
    have "probe_commands sys cls kw names rest (?reg1, h2) = Inr (reg', h')" by auto
    from Cons.IH[OF this sub] k show ?thesis by simp
  qed
qed

lemma probe_commands_keys_new:
  assumes "probe_commands sys cls kw names cmds (reg, h) = Inr (reg', h')"
      and "cmds \<noteq> []" and "distinct names" and "set names \<inter> fst ` set reg = {}"
  shows "map fst reg' = map fst reg @ names"
proof -
  from assms(2) obtain cmd rest where cs: "cmds = cmd # rest" by (cases cmds) auto
  from assms(1) cs obtain r where c: "construct sys cls cmd kw = Inr r"
    by (cases "construct sys cls cmd kw") auto
  let ?reg1 = "fold (\<lambda>name acc. od_set acc name (fresh h)) names reg"
  obtain res h2 where p: "is_available sys (fresh h) (snd (new_object r h)) = (res, h2)"
    by (cases "is_available sys (fresh h) (snd (new_object r h))")
  note step = probe_commands_step[OF c p, of names rest reg]
  have k: "map fst ?reg1 = map fst reg @ names" using assms(3,4) by (rule keys_fold_new)
  then have "set (map fst ?reg1) = set (map fst reg @ names)" by simp
  then have sub: "set names \<subseteq> fst ` set ?reg1" by auto
  from assms(1) cs step obtain ok where ok: "res = Inr ok" by (cases res) auto
  show ?thesis
  proof (cases ok)
    case True
    with assms(1) cs step ok have "reg' = ?reg1" by auto
    with k show ?thesis by simp
  next
    case False
    with assms(1) cs step ok
    have "probe_commands sys cls kw names rest (?reg1, h2) = Inr (reg', h')" by auto
    from probe_commands_keys_old[OF this sub] k show ?thesis by simp
  qed
qed

lemma setup_loop_keys:
  "setup_loop sys cfg order (reg, h) = Inr (reg', h') \<Longrightarrow>
   distinct (concat (map (names_of cfg) order)) \<Longrightarrow>
   set (concat (map (names_of cfg) order)) \<inter> fst ` set reg = {} \<Longrightarrow>
   \<forall>g\<in>set order. \<forall>c. cfg g = Some c \<longrightarrow> commands_to_try c \<noteq> [] \<Longrightarrow>
     map fst reg' = map fst reg @ concat (map (names_of cfg) order)"
proof (induction order arbitrary: reg h)
  case Nil
  then show ?case by simp
next
  case (Cons g rest)
  from Cons.prems(1) obtain reg1 h1 where
      s: "setup_family sys cfg g (reg, h) = Inr (reg1, h1)"
    and l: "setup_loop sys cfg rest (reg1, h1) = Inr (reg', h')"
    by (cases "setup_family sys cfg g (reg, h)") auto
  from s obtain c where c: "cfg g = Some c"
    and p: "probe_commands sys (class_name c) (kwargs c) (g # alternate_names c)
              (commands_to_try c) (reg, h) = Inr (reg1, h1)"
    by (rule setup_family_probe)
  have n: "names_of cfg g = g # alternate_names c" using c by (simp add: names_of_def)
  have ne: "commands_to_try c \<noteq> []" using Cons.prems(4) c by simp
  have dn: "distinct (g # alternate_names c)" using Cons.prems(2) n by simp
  have dj: "set (g # alternate_names c) \<inter> fst ` set reg = {}"
    using Cons.prems(3) n by auto
  have k1: "map fst reg1 = map fst reg @ names_of cfg g"
    using probe_commands_keys_new[OF p ne dn dj] n by simp
  then have "set (map fst reg1) = set (map fst reg @ names_of cfg g)" by simp
  then have keys1: "fst ` set reg1 = fst ` set reg \<union> set (names_of cfg g)" by simp
  have d: "distinct (concat (map (names_of cfg) rest))" using Cons.prems(2) by simp
  have "set (names_of cfg g) \<inter> set (concat (map (names_of cfg) rest)) = {}"
    using Cons.prems(2) by simp
  moreover have "set (concat (map (names_of cfg) rest)) \<inter> fst ` set reg = {}"
    using Cons.prems(3) by auto
  ultimately have dj1: "set (concat (map (names_of cfg) rest)) \<inter> fst ` set reg1 = {}"
    using keys1 by auto
  have "\<forall>g\<in>set rest. \<forall>c. cfg g = Some c \<longrightarrow> commands_to_try c \<noteq> []"
    using Cons.prems(4) by simp
  from Cons.IH[OF l d dj1 this] k1 show ?case by simp
qed

text \<open>
  C6. When \<open>_setup_runtimes\<close> returns a registry for an order and a configuration in which
  all names (of families and aliases) are different, then for every family of the order
  that has candidates: the primary name and every alias are bound to one and the same
  object; that object is the one constructed from the first candidate that is available
  or, when no candidate is available, from the last candidate; its \<open>is_available()\<close>
  returns true in the first case and false in the second; and the candidates behind the
  first available one were not constructed: the number of objects allocated is the sum,
  over the families, of the number of candidates up to and including the first
  available one. When every family has candidates, the names of the registry, in its
  order, are the names of the families in the given order, each followed by its aliases.
\<close>

theorem setup_runtimes_registry:
  assumes "setup_runtimes sys order cfg = Inr (reg, h)"
      and "distinct (concat (map (names_of cfg) order))"
      and "f \<in> set order" and "cfg f = Some c" and "commands_to_try c \<noteq> []"
  shows "(\<exists>a. (\<forall>n\<in>set (f # alternate_names c). runtimes reg n = Some a) \<and>
              construct sys (class_name c)
                  (first_or_last (candidate_available sys (class_name c) (kwargs c))
                     (commands_to_try c))
                  (kwargs c)
                = Inr (uncached (obj h a)) \<and>
              fst (is_available sys a h)
                = Inr (\<exists>cmd\<in>set (commands_to_try c).
                         candidate_available sys (class_name c) (kwargs c) cmd)) \<and>
         fresh h = sum_list (map (probed sys cfg) order) \<and>
         ((\<forall>g\<in>set order. \<forall>c. cfg g = Some c \<longrightarrow> commands_to_try c \<noteq> []) \<longrightarrow>
            map fst reg = concat (map (names_of cfg) order))"
proof -
  from assms(1) have l: "setup_loop sys cfg order ([], empty_heap) = Inr (reg, h)"
    by (simp add: setup_runtimes_def)
  from setup_loop_family[OF l assms(2-5)]
  have "\<exists>a. (\<forall>n\<in>set (f # alternate_names c). runtimes reg n = Some a) \<and>
              construct sys (class_name c)
                  (first_or_last (candidate_available sys (class_name c) (kwargs c))
                     (commands_to_try c))
                  (kwargs c)
                = Inr (uncached (obj h a)) \<and>
              fst (is_available sys a h)
                = Inr (\<exists>cmd\<in>set (commands_to_try c).
                         candidate_available sys (class_name c) (kwargs c) cmd)"
    by (simp add: runtimes_def is_available_result)
  moreover have "fresh h = sum_list (map (probed sys cfg) order)"
    using setup_loop_keeps[OF l] by (simp add: empty_heap_def)
  moreover have "(\<forall>g\<in>set order. \<forall>c. cfg g = Some c \<longrightarrow> commands_to_try c \<noteq> []) \<longrightarrow>
            map fst reg = concat (map (names_of cfg) order)"
    using setup_loop_keys[OF l assms(2)] by simp
  ultimately show ?thesis by blast
qed

lemmas setup_eval = setup_runtimes_def setup_family_def construct_def known_class_def
  class_name_def config_def config_items_def runtime_preferred_order_def new_object_def
  empty_heap_def is_available_def binary_def which_def find_executable_def names_of_def
  runtimes_def ExternalRuntime_init_def sample_runner_sources_def sample_system_def
  environ_get_def posix_join_def startswith_def S_ISREG_def S_IMODE_def lit_def Let_def

lemma sample_setup:
  "setup_runtimes sample_system runtime_preferred_order (config sample_runner_sources)
     = Inr (fst (projr (setup_runtimes sample_system runtime_preferred_order (config sample_runner_sources))),
            snd (projr (setup_runtimes sample_system runtime_preferred_order (config sample_runner_sources))))"
  by (simp add: setup_eval)

lemma sample_distinct:
  "distinct (concat (map (names_of (config sample_runner_sources)) runtime_preferred_order))"
  by (simp add: setup_eval)

theorem setup_runtimes_registry_witness:
  "distinct (concat (map (names_of (config sample_runner_sources)) runtime_preferred_order)) \<and>
   (case setup_runtimes sample_system runtime_preferred_order (config sample_runner_sources) of
      Inl e \<Rightarrow> False
    | Inr (reg, h) \<Rightarrow>
        runtimes reg (lit ''SpiderMonkey'') = Some 4 \<and>
        runtimes reg (lit ''Spidermonkey'') = Some 4 \<and>
        fst (is_available sample_system 4 h) = Inr True \<and>
        runtimes reg (lit ''Node'') = Some 2 \<and>
        uncached (obj h 2)
          = ExternalRuntime
              (ExternalRuntime_init (lit ''Node.js (V8)'') (CmdStr (lit ''node'')) [] (lit ''UTF-8'')) \<and>
        fst (is_available sample_system 2 h) = Inr True \<and>
        runtimes reg (lit ''PhantomJS'') = Some 6 \<and>
        fst (is_available sample_system 6 h) = Inr False \<and>
        fresh h = 8 \<and>
        map fst reg
          = [lit ''PyV8'', lit ''Node'', lit ''JavaScriptCore'', lit ''SpiderMonkey'',
             lit ''Spidermonkey'', lit ''JScript'', lit ''PhantomJS'', lit ''SlimerJS''])"
proof -
  have node: "config sample_runner_sources (lit ''Node'')
      = Some \<lparr>commands_to_try = [CmdStr (lit ''nodejs''), CmdStr (lit ''node'')],
              kwargs = \<lparr>kw_name = Some (lit ''Node.js (V8)''),
                        kw_runner_source = Some [], kw_encoding = Some (lit ''UTF-8'')\<rparr>,
              runtime_type = None, alternate_names = []\<rparr>"
    by (simp add: config_def config_items_def sample_runner_sources_def lit_def)
  have "lit ''Node'' \<in> set runtime_preferred_order"
    by (simp add: runtime_preferred_order_def)
  from setup_runtimes_registry[OF sample_setup sample_distinct this node]
  show ?thesis
    by (simp add: setup_eval)
qed

end
